theory Spec2Isabelle
  imports Complex_Main "HOL-Library.Log_Nat" "HOL-Library.Multiset"
begin

section \<open>Python values\<close>

subsection \<open>Strings and bytes\<close>

text \<open>
  A Python \<open>str\<close> is a sequence of Unicode code points, so it is modelled as a list of
  natural numbers. A Python \<open>bytes\<close> object is a sequence of 8-bit values, which is what a
  HOL \<open>string\<close> is. \<open>lit\<close> turns an ASCII literal of the source into a \<open>str\<close>.
\<close>

type_synonym pystr = "nat list"

type_synonym pybytes = "string"

definition lit :: "string \<Rightarrow> pystr" where
  "lit s = map of_char s"

text \<open>
  \<open>str.isspace\<close> for one code point: the code points CPython treats as whitespace
  (bidirectional class WS, B or S, or category Zs).
\<close>

definition isspace :: "nat \<Rightarrow> bool" where
  "isspace c \<longleftrightarrow>
     (9 \<le> c \<and> c \<le> 13) \<or> (28 \<le> c \<and> c \<le> 32) \<or> c = 133 \<or> c = 160 \<or> c = 5760 \<or>
     (8192 \<le> c \<and> c \<le> 8202) \<or> c = 8232 \<or> c = 8233 \<or> c = 8239 \<or> c = 8287 \<or> c = 12288"

text \<open>\<open>s.strip()\<close>: leading and trailing whitespace removed.\<close>

definition str_strip :: "pystr \<Rightarrow> pystr" where
  "str_strip s = rev (dropWhile isspace (rev (dropWhile isspace s)))"

definition str_startswith :: "pystr \<Rightarrow> pystr \<Rightarrow> bool" where
  "str_startswith s p \<longleftrightarrow> take (length p) s = p"

definition str_endswith :: "pystr \<Rightarrow> pystr \<Rightarrow> bool" where
  "str_endswith s p \<longleftrightarrow> length p \<le> length s \<and> drop (length s - length p) s = p"

text \<open>
  \<open>s.find(c)\<close> and \<open>s.rfind(c)\<close> for a one-character needle, which is how the source
  calls them: the lowest (highest) index of \<open>c\<close> in \<open>s\<close>, or \<open>-1\<close>.
\<close>

fun str_find :: "pystr \<Rightarrow> nat \<Rightarrow> int" where
  "str_find [] c = - 1"
| "str_find (x # xs) c =
     (if x = c then 0 else (let r = str_find xs c in if r = - 1 then - 1 else r + 1))"

definition str_rfind :: "pystr \<Rightarrow> nat \<Rightarrow> int" where
  "str_rfind s c =
     (let r = str_find (rev s) c in if r = - 1 then - 1 else int (length s) - 1 - r)"

text \<open>\<open>s[i:j]\<close> for indices that are not negative.\<close>

definition slice :: "pystr \<Rightarrow> int \<Rightarrow> int \<Rightarrow> pystr" where
  "slice s i j = take (nat j - nat i) (drop (nat i) s)"

text \<open>\<open>s.replace(a, b)\<close> for one-character \<open>a\<close> and \<open>b\<close>.\<close>

definition str_replace :: "pystr \<Rightarrow> nat \<Rightarrow> nat \<Rightarrow> pystr" where
  "str_replace s a b = map (\<lambda>c. if c = a then b else c) s"

text \<open>\<open>str(n)\<close> for an integer: its decimal digits.\<close>

function str_nat :: "nat \<Rightarrow> pystr" where
  "str_nat n = (if n < 10 then [48 + n] else str_nat (n div 10) @ [48 + n mod 10])"
  by pat_completeness auto
termination
  by (relation "measure id") auto

declare str_nat.simps [simp del]

definition str_int :: "int \<Rightarrow> pystr" where
  "str_int i = (if i < 0 then 45 # str_nat (nat (- i)) else str_nat (nat i))"

subsection \<open>Exceptions\<close>

text \<open>
  The subclasses of \<open>Exception\<close> that the program raises or catches. Each carries the
  text of its message; \<open>JSONDecodeError\<close> carries the attributes \<open>msg\<close>, \<open>doc\<close> and
  \<open>pos\<close> that the library gives it. A function that may raise returns
  \<open>py_exception + 'a\<close>, with \<open>Inl\<close> for the raised exception.
\<close>

datatype py_exception =
    ValueError pystr
  | JSONDecodeError pystr pystr nat
  | TypeError pystr
  | RuntimeError pystr
  | NotImplementedError pystr
  | OverflowError pystr
  | UnicodeEncodeError pystr
  | OtherException pystr

text \<open>
  \<open>str(e)\<close>. For \<open>JSONDecodeError\<close> the library builds the message from the line and
  column of \<open>pos\<close> in \<open>doc\<close>.
\<close>

definition json_error_lineno :: "pystr \<Rightarrow> nat \<Rightarrow> nat" where
  "json_error_lineno doc pos = length (filter (\<lambda>c. c = 10) (take pos doc)) + 1"

definition json_error_colno :: "pystr \<Rightarrow> nat \<Rightarrow> nat" where
  "json_error_colno doc pos =
     (let r = str_rfind (take pos doc) 10 in if r = - 1 then pos + 1 else pos - nat r)"

fun exc_str :: "py_exception \<Rightarrow> pystr" where
  "exc_str (ValueError m) = m"
| "exc_str (JSONDecodeError m doc pos) =
     m @ lit '': line '' @ str_nat (json_error_lineno doc pos) @
     lit '' column '' @ str_nat (json_error_colno doc pos) @
     lit '' (char '' @ str_nat pos @ lit '')''"
| "exc_str (TypeError m) = m"
| "exc_str (RuntimeError m) = m"
| "exc_str (NotImplementedError m) = m"
| "exc_str (OverflowError m) = m"
| "exc_str (UnicodeEncodeError m) = m"
| "exc_str (OtherException m) = m"

subsection \<open>Floats\<close>

text \<open>
  A Python \<open>float\<close> is an IEEE 754 binary64 value: a finite value (a rational; the two
  zeros are identified), an infinity or a NaN. \<open>round_double\<close> rounds a rational to the
  nearest binary64 value, ties to even, with gradual underflow and overflow to an
  infinity; every arithmetic result below goes through it.
\<close>

datatype pyfloat = Finite rat | PosInf | NegInf | NaN

definition round_half_even :: "rat \<Rightarrow> int" where
  "round_half_even x =
     (let f = \<lfloor>x\<rfloor>; d = x - of_int f
      in if d < 1 / 2 then f else if 1 / 2 < d then f + 1 else if even f then f else f + 1)"

definition pow2 :: "int \<Rightarrow> rat" where
  "pow2 e = (if 0 \<le> e then 2 ^ nat e else 1 / 2 ^ nat (- e))"

text \<open>The integer part of the binary logarithm of a positive rational.\<close>

definition floor_log2 :: "rat \<Rightarrow> int" where
  "floor_log2 a = (if 1 \<le> a then bitlen \<lfloor>a\<rfloor> - 1 else - bitlen (\<lceil>1 / a\<rceil> - 1))"

definition round_double :: "rat \<Rightarrow> pyfloat" where
  "round_double x =
     (if x = 0 then Finite 0
      else let a = \<bar>x\<bar>;
               q = max (floor_log2 a - 52) (- 1074);
               m = round_half_even (a / pow2 q);
               r = of_int m * pow2 q
           in if pow2 1024 \<le> r then (if 0 < x then PosInf else NegInf)
              else Finite (if 0 < x then r else - r))"

text \<open>
  \<open>float(n)\<close> for an integer \<open>n\<close>: the nearest binary64 value, and \<open>OverflowError\<close> when
  that would be an infinity, which is from \<open>2 ^ 1024 - 2 ^ 970\<close> on.
\<close>

definition float_of_int :: "int \<Rightarrow> py_exception + pyfloat" where
  "float_of_int n =
     (if 2 ^ 1024 - 2 ^ 970 \<le> \<bar>n\<bar>
      then Inl (OverflowError (lit ''int too large to convert to float''))
      else Inr (round_double (of_int n)))"

text \<open>Multiplication of two floats; it never raises.\<close>

fun float_mul :: "pyfloat \<Rightarrow> pyfloat \<Rightarrow> pyfloat" where
  "float_mul NaN y = NaN"
| "float_mul x NaN = NaN"
| "float_mul (Finite a) (Finite b) = round_double (a * b)"
| "float_mul (Finite a) PosInf = (if a = 0 then NaN else if 0 < a then PosInf else NegInf)"
| "float_mul (Finite a) NegInf = (if a = 0 then NaN else if 0 < a then NegInf else PosInf)"
| "float_mul PosInf (Finite b) = (if b = 0 then NaN else if 0 < b then PosInf else NegInf)"
| "float_mul NegInf (Finite b) = (if b = 0 then NaN else if 0 < b then NegInf else PosInf)"
| "float_mul PosInf PosInf = PosInf"
| "float_mul PosInf NegInf = NegInf"
| "float_mul NegInf PosInf = NegInf"
| "float_mul NegInf NegInf = PosInf"

fun float_neg :: "pyfloat \<Rightarrow> pyfloat" where
  "float_neg (Finite a) = Finite (- a)"
| "float_neg PosInf = NegInf"
| "float_neg NegInf = PosInf"
| "float_neg NaN = NaN"

text \<open>The comparisons \<open><\<close> and \<open>==\<close> of floats: every comparison with a NaN is false.\<close>

fun float_lt :: "pyfloat \<Rightarrow> pyfloat \<Rightarrow> bool" where
  "float_lt NaN y = False"
| "float_lt x NaN = False"
| "float_lt (Finite a) (Finite b) = (a < b)"
| "float_lt (Finite a) PosInf = True"
| "float_lt (Finite a) NegInf = False"
| "float_lt PosInf y = False"
| "float_lt NegInf NegInf = False"
| "float_lt NegInf y = True"

definition float_eq :: "pyfloat \<Rightarrow> pyfloat \<Rightarrow> bool" where
  "float_eq x y \<longleftrightarrow> x \<noteq> NaN \<and> x = y"

text \<open>\<open>x >= y\<close> on floats.\<close>

definition float_ge :: "pyfloat \<Rightarrow> pyfloat \<Rightarrow> bool" where
  "float_ge x y \<longleftrightarrow> float_lt y x \<or> float_eq x y"

subsection \<open>Values, dictionaries and the library functions\<close>

text \<open>
  The values that JSON text decodes to and that candidates, configurations and replies are
  made of. A \<open>dict\<close> with string keys is an association list in insertion order.
\<close>

datatype pyval =
    PNone
  | PBool bool
  | PInt int
  | PFloat pyfloat
  | PStr pystr
  | PList "pyval list"
  | PDict "(pystr \<times> pyval) list"

type_synonym pydict = "(pystr \<times> pyval) list"

text \<open>\<open>d.get(k, default)\<close>; \<open>d.get(k)\<close> is \<open>d.get(k, None)\<close>.\<close>

definition dict_get :: "pydict \<Rightarrow> pystr \<Rightarrow> pyval \<Rightarrow> pyval" where
  "dict_get d k dflt = (case map_of d k of None \<Rightarrow> dflt | Some v \<Rightarrow> v)"

text \<open>\<open>d.setdefault(k, v)\<close>, returning the updated dictionary.\<close>

definition dict_setdefault :: "pydict \<Rightarrow> pystr \<Rightarrow> pyval \<Rightarrow> pydict" where
  "dict_setdefault d k v = (if map_of d k = None then d @ [(k, v)] else d)"

text \<open>\<open>bool(v)\<close>, the truth value that \<open>or\<close> and \<open>if\<close> test.\<close>

fun truthy :: "pyval \<Rightarrow> bool" where
  "truthy PNone = False"
| "truthy (PBool b) = b"
| "truthy (PInt n) = (n \<noteq> 0)"
| "truthy (PFloat f) = (f \<noteq> Finite 0)"
| "truthy (PStr s) = (s \<noteq> [])"
| "truthy (PList xs) = (xs \<noteq> [])"
| "truthy (PDict d) = (d \<noteq> [])"

text \<open>
  \<open>isinstance(v, (int, float))\<close>. In Python \<open>bool\<close> is a subclass of \<open>int\<close>, so
  \<open>True\<close> and \<open>False\<close> are instances.
\<close>

fun isinstance_int_float :: "pyval \<Rightarrow> bool" where
  "isinstance_int_float (PBool b) = True"
| "isinstance_int_float (PInt n) = True"
| "isinstance_int_float (PFloat f) = True"
| "isinstance_int_float v = False"

text \<open>
  \<open>v * 10\<close> for an instance of \<open>int\<close> or \<open>float\<close>: exact on integers (\<open>True\<close> counts as
  1), a float multiplication by \<open>10.0\<close> on floats. The source applies it to such
  instances only; the last equation is never reached.
\<close>

fun mul_10 :: "pyval \<Rightarrow> pyval" where
  "mul_10 (PBool b) = PInt (if b then 10 else 0)"
| "mul_10 (PInt n) = PInt (n * 10)"
| "mul_10 (PFloat f) = PFloat (float_mul f (Finite 10))"
| "mul_10 v = PNone"

text \<open>\<open>float(v)\<close> for an instance of \<open>int\<close> or \<open>float\<close>.\<close>

fun py_float :: "pyval \<Rightarrow> py_exception + pyfloat" where
  "py_float (PBool b) = Inr (Finite (if b then 1 else 0))"
| "py_float (PInt n) = float_of_int n"
| "py_float (PFloat f) = Inr f"
| "py_float v = Inl (TypeError (lit ''float() argument must be a string or a real number''))"

text \<open>
  The dictionary that the evaluation returns for one candidate, with the types its
  entries have when the loop builds it.
\<close>

record canonical_result =
  id' :: pyval
  name :: pyval
  llm_score :: "pyfloat option"
  score_10 :: "pyfloat option"
  breakdown :: pydict
  passed_required :: bool
  reasons :: "pyval list"
  raw_llm_output :: "pystr option"
  explanation :: pyval

text \<open>
  The second component of the sort key is the integer \<open>0\<close> or a float; Python compares
  the two kinds by value.
\<close>

datatype pynum = NInt int | NFloat pyfloat

fun num_val :: "pynum \<Rightarrow> pyfloat" where
  "num_val (NInt n) = Finite (of_int n)"
| "num_val (NFloat f) = f"

definition num_lt :: "pynum \<Rightarrow> pynum \<Rightarrow> bool" where
  "num_lt a b = float_lt (num_val a) (num_val b)"

definition num_eq :: "pynum \<Rightarrow> pynum \<Rightarrow> bool" where
  "num_eq a b = float_eq (num_val a) (num_val b)"

text \<open>
  The library functions the program calls, as parameters.

  \<^item> \<open>json.dumps\<close> with \<open>ensure_ascii=False, indent=2\<close>. It returns the text or raises:
    on an integer of more than 4300 digits (\<open>ValueError\<close>) and on values nested too
    deeply (\<open>RecursionError\<close>, here an \<open>OtherException\<close>).

  \<^item> \<open>json.loads\<close> on a text that starts with an opening brace, where it returns a
    \<open>dict\<close> or raises.

  \<^item> \<open>repr\<close>.

  \<^item> \<open>sorted(xs, key=f)\<close> on a list of results, with keys that are pairs of a truth
    value and a number. What is known of it is stated as \<open>sorted_contract\<close> below.
\<close>

record runtime =
  json_dumps :: "pyval \<Rightarrow> py_exception + pystr"
  json_loads :: "pystr \<Rightarrow> py_exception + pydict"
  py_repr :: "pyval \<Rightarrow> pystr"
  py_sorted :: "(canonical_result \<Rightarrow> bool \<times> pynum) \<Rightarrow> canonical_result list \<Rightarrow> canonical_result list"

text \<open>\<open>str(v)\<close>: a string is itself, every other value prints as its \<open>repr\<close>.\<close>

definition py_str :: "runtime \<Rightarrow> pyval \<Rightarrow> pystr" where
  "py_str rt v = (case v of PStr s \<Rightarrow> s | _ \<Rightarrow> py_repr rt v)"

section \<open>The ranking logic (\<open>ranking_logic.py\<close>)\<close>

subsection \<open>Prompt construction and the scorer call\<close>

definition normalize_candidate :: "pydict \<Rightarrow> pydict" where
  "normalize_candidate raw =
     (let c = raw;
          c = dict_setdefault c (lit ''education'') (PDict []);
          c = dict_setdefault c (lit ''skills'') (PDict []);
          c = dict_setdefault c (lit ''general_skills'') (PList []);
          c = dict_setdefault c (lit ''personal_information'') (PDict []);
          c = dict_setdefault c (lit ''available_types_of_work'') (PList [])
      in c)"

text \<open>
  The two \<open>json.dumps\<close> calls are evaluated in the order in which they stand in the
  text; an exception of either leaves the function.
\<close>

definition build_prompt_for_candidate :: "runtime \<Rightarrow> pydict \<Rightarrow> pyval \<Rightarrow> py_exception + pystr" where
  "build_prompt_for_candidate rt candidate config =
     (let cand = normalize_candidate candidate
      in case json_dumps rt (PDict cand) of
           Inl e \<Rightarrow> Inl e
         | Inr cand_text \<Rightarrow>
             (case json_dumps rt config of
                Inl e \<Rightarrow> Inl e
              | Inr config_text \<Rightarrow>
                  Inr (lit ''You are an assistant that scores candidates for a software engineering role.\<newline>'' @
                       lit ''Return a single STRICT JSON object EXACTLY in the format shown in the example.\<newline>'' @
                       lit ''Important: The response must be valid JSON, with keys and strings in double quotes, no comments, no trailing commas, and no Markdown code fences. Respond with ONLY the JSON object and nothing else.\<newline>\<newline>'' @
                       lit ''Candidate (input):\<newline>'' @
                       cand_text @ lit ''\<newline>\<newline>'' @
                       lit ''Config (rules):\<newline>'' @
                       config_text @ lit ''\<newline>\<newline>'' @
                       lit ''RESPONSE FORMAT EXAMPLE (must be valid JSON):\<newline>'' @
                       lit ''{\<newline>'' @
                       lit ''  \"score\": 0.82,\<newline>'' @
                       lit ''  \"breakdown\": {\<newline>'' @
                       lit ''    \"experience\": 0.9,\<newline>'' @
                       lit ''    \"education\": 0.6,\<newline>'' @
                       lit ''    \"general\": 0.7,\<newline>'' @
                       lit ''    \"optional_bonus\": 0.05\<newline>'' @
                       lit ''  },\<newline>'' @
                       lit ''  \"passed_required\": true,\<newline>'' @
                       lit ''  \"reasons\": [\"Short explanation here\"],\<newline>'' @
                       lit ''  \"explanation\": \"One or two sentence explanation\"\<newline>'' @
                       lit ''}\<newline>\<newline>'' @
                       lit ''Score the candidate now and return only the JSON object. Do not wrap it in backticks or markdown.'')))"

text \<open>
  A scorer is the callable behind \<open>call_llm\<close>: given the prompt it returns the raw reply
  or raises. Its first argument is the number of the call within the run (the loop's
  \<open>idx\<close>), so that a scorer with state of its own, such as a network service, is covered:
  its answer may depend on which call it is, not only on the prompt.
\<close>

type_synonym scorer = "nat \<Rightarrow> pystr \<Rightarrow> py_exception + pystr"

text \<open>
  What \<open>import llm_backend\<close> finds: the import fails, the module has no callable
  \<open>score_candidate\<close>, or it has one.
\<close>

datatype backend = ImportFails | NoScoreCandidate | ScoreCandidate scorer

definition call_llm :: "backend \<Rightarrow> scorer option \<Rightarrow> nat \<Rightarrow> pystr \<Rightarrow> py_exception + pystr" where
  "call_llm llm_backend llm_client idx prompt =
     (case llm_client of
        Some client \<Rightarrow> client idx prompt
      | None \<Rightarrow>
          (case llm_backend of
             ImportFails \<Rightarrow>
               Inl (NotImplementedError (lit ''No llm_client provided and llm_backend is unavailable''))
           | ScoreCandidate score_candidate \<Rightarrow> score_candidate idx prompt
           | NoScoreCandidate \<Rightarrow>
               Inl (NotImplementedError (lit ''llm_backend.score_candidate not implemented''))))"

subsection \<open>Parsing the reply\<close>

text \<open>
  The first part of \<open>parse_llm_json_response\<close>: the text after whitespace trimming and
  fence stripping.
\<close>

definition strip_fences :: "pystr \<Rightarrow> pystr" where
  "strip_fences raw =
     (let text = str_strip raw;
          text = (if str_startswith text (lit ''```'')
                  then (let first_newline = str_find text 10
                        in if first_newline \<noteq> - 1 then drop (nat (first_newline + 1)) text else text)
                  else text);
          text = (if str_endswith text (lit ''```'')
                  then str_strip (take (length text - 3) text)
                  else text)
      in text)"

definition parse_llm_json_response :: "runtime \<Rightarrow> pystr \<Rightarrow> py_exception + pydict" where
  "parse_llm_json_response rt raw =
     (let text = strip_fences raw;
          start = str_find text 123;
          end' = str_rfind text 125
      in if start = - 1 \<or> end' = - 1 \<or> end' < start
         then Inl (ValueError (lit ''No JSON object found in LLM response''))
         else
           (let snippet = slice text start (end' + 1)
            in case json_loads rt snippet of
                 Inr parsed \<Rightarrow> Inr parsed
               | Inl (JSONDecodeError msg doc pos) \<Rightarrow>
                   (case json_loads rt (snippet @ lit ''}'') of
                      Inr parsed \<Rightarrow> Inr parsed
                    | Inl (JSONDecodeError msg2 doc2 pos2) \<Rightarrow>
                        (let preview = str_replace (take 200 snippet) 10 32
                         in Inl (ValueError
                              (lit ''Failed to parse JSON snippet: '' @ msg @ lit '' (pos '' @
                               str_nat pos @ lit ''). Snippet preview: '' @ preview)))
                    | Inl e \<Rightarrow> Inl e)
               | Inl e \<Rightarrow> Inl e))"

subsection \<open>The canonical result and the evaluation loop\<close>

text \<open>The \<open>try\<close> block of the loop: the scorer call, then the parse of its reply.\<close>

definition call_and_parse ::
  "runtime \<Rightarrow> backend \<Rightarrow> scorer option \<Rightarrow> nat \<Rightarrow> pystr \<Rightarrow> py_exception + pystr \<times> pydict" where
  "call_and_parse rt llm_backend llm_client idx prompt =
     (case call_llm llm_backend llm_client idx prompt of
        Inl e \<Rightarrow> Inl e
      | Inr raw \<Rightarrow>
          (case parse_llm_json_response rt raw of
             Inl e \<Rightarrow> Inl e
           | Inr parsed \<Rightarrow> Inr (raw, parsed)))"

text \<open>The record appended in the \<open>except\<close> branch.\<close>

definition failure_result :: "pydict \<Rightarrow> py_exception \<Rightarrow> canonical_result" where
  "failure_result cand e =
     \<lparr> id' = dict_get cand (lit ''id'') PNone,
       name = dict_get cand (lit ''name'') PNone,
       llm_score = None,
       score_10 = None,
       breakdown = [],
       passed_required = False,
       reasons = [PStr (lit ''LLM error: '' @ exc_str e)],
       raw_llm_output = None,
       explanation = PNone \<rparr>"

text \<open>\<open>float(v) if isinstance(v, (int, float)) else None\<close>, as both score fields are built.\<close>

definition float_or_none :: "pyval \<Rightarrow> py_exception + pyfloat option" where
  "float_or_none v = (if isinstance_int_float v then map_sum id Some (py_float v) else Inr None)"

text \<open>
  The conversion of a parsed reply into the canonical shape, which follows the \<open>try\<close>
  statement and is not inside it: an exception raised here leaves the function.
\<close>

definition canonical :: "runtime \<Rightarrow> pydict \<Rightarrow> pystr \<Rightarrow> pydict \<Rightarrow> py_exception + canonical_result" where
  "canonical rt cand raw parsed =
     (let score = dict_get parsed (lit ''score'') PNone;
          score_10 = (if isinstance_int_float score then mul_10 score else PNone);
          breakdown = (case dict_get parsed (lit ''breakdown'') (PDict []) of
                         PDict d \<Rightarrow> d | _ \<Rightarrow> []);
          passed = truthy (dict_get parsed (lit ''passed_required'') (PBool False));
          reasons = (let r = dict_get parsed (lit ''reasons'') PNone
                     in if truthy r then r else PList []);
          explanation = dict_get parsed (lit ''explanation'') PNone
      in case float_or_none score of
           Inl e \<Rightarrow> Inl e
         | Inr the_llm_score \<Rightarrow>
             (case float_or_none score_10 of
                Inl e \<Rightarrow> Inl e
              | Inr the_score_10 \<Rightarrow>
                  Inr \<lparr> id' = dict_get cand (lit ''id'') PNone,
                        name = dict_get cand (lit ''name'') PNone,
                        llm_score = the_llm_score,
                        score_10 = the_score_10,
                        breakdown = breakdown,
                        passed_required = passed,
                        reasons = (case reasons of PList xs \<Rightarrow> xs | v \<Rightarrow> [PStr (py_str rt v)]),
                        raw_llm_output = Some raw,
                        explanation = explanation \<rparr>))"

text \<open>
  One iteration of the \<open>for\<close> loop, for the candidate numbered \<open>idx\<close>: the record it
  appends to \<open>results\<close>, or the exception that leaves the loop. The prompt is built
  before the \<open>try\<close> statement, so an exception of \<open>json.dumps\<close> leaves the loop as
  well.

  The clock that the loop reads and the progress lines that it prints are not part of
  the model: standard output is taken to accept every line. Two of the lines hold the
  characters U+2713 and U+2717; on a standard output whose encoding lacks them
  \<open>print\<close> raises, which this model does not show.
\<close>

definition evaluate_candidate ::
  "runtime \<Rightarrow> backend \<Rightarrow> scorer option \<Rightarrow> pyval \<Rightarrow> nat \<Rightarrow> pydict \<Rightarrow>
   py_exception + canonical_result" where
  "evaluate_candidate rt llm_backend llm_client config idx cand =
     (case build_prompt_for_candidate rt cand config of
        Inl e \<Rightarrow> Inl e
      | Inr prompt \<Rightarrow>
          (case call_and_parse rt llm_backend llm_client idx prompt of
             Inl e \<Rightarrow> Inr (failure_result cand e)
           | Inr (raw, parsed) \<Rightarrow> canonical rt cand raw parsed))"

fun evaluate_loop ::
  "runtime \<Rightarrow> backend \<Rightarrow> scorer option \<Rightarrow> pyval \<Rightarrow> nat \<Rightarrow> pydict list \<Rightarrow>
   canonical_result list \<Rightarrow> py_exception + canonical_result list" where
  "evaluate_loop rt llm_backend llm_client config idx [] results = Inr results"
| "evaluate_loop rt llm_backend llm_client config idx (cand # rest) results =
     (case evaluate_candidate rt llm_backend llm_client config idx cand of
        Inl e \<Rightarrow> Inl e
      | Inr r \<Rightarrow> evaluate_loop rt llm_backend llm_client config (Suc idx) rest (results @ [r]))"

subsection \<open>Sorting\<close>

text \<open>
  \<open>sort_key\<close> of the source: \<open>(r["llm_score"] is None, -(r["llm_score"] or 0))\<close>. A score
  that is absent or zero is falsy, so \<open>or\<close> replaces it by the integer \<open>0\<close>.
\<close>

definition sort_key' :: "canonical_result \<Rightarrow> bool \<times> pynum" where
  "sort_key' r =
     (llm_score r = None,
      (case llm_score r of
         None \<Rightarrow> NInt (- 0)
       | Some f \<Rightarrow> if f = Finite 0 then NInt (- 0) else NFloat (float_neg f)))"

text \<open>
  \<open><\<close> on the key tuples: the first components that differ (by \<open>==\<close>) decide.
\<close>

definition key_lt :: "bool \<times> pynum \<Rightarrow> bool \<times> pynum \<Rightarrow> bool" where
  "key_lt a b =
     (if fst a \<noteq> fst b then \<not> fst a \<and> fst b
      else if \<not> num_eq (snd a) (snd b) then num_lt (snd a) (snd b)
      else False)"

text \<open>
  A stable insertion sort that compares keys with \<open><\<close> only. It serves to say what a
  stable sort returns where \<open><\<close> orders the keys, and as the sort of the example
  runtime.
\<close>

fun insort_lt :: "('k \<Rightarrow> 'k \<Rightarrow> bool) \<Rightarrow> ('a \<Rightarrow> 'k) \<Rightarrow> 'a \<Rightarrow> 'a list \<Rightarrow> 'a list" where
  "insort_lt lt f x [] = [x]"
| "insort_lt lt f x (y # ys) =
     (if lt (f y) (f x) then y # insort_lt lt f x ys else x # y # ys)"

definition insertion_sort :: "('k \<Rightarrow> 'k \<Rightarrow> bool) \<Rightarrow> ('a \<Rightarrow> 'k) \<Rightarrow> 'a list \<Rightarrow> 'a list" where
  "insertion_sort lt f xs = foldr (insort_lt lt f) xs []"

text \<open>
  No key of the list is a NaN. On such keys \<open><\<close> is a strict weak order; a NaN is
  neither less than nor equal to anything, itself included.
\<close>

definition nan_free_keys :: "('a \<Rightarrow> bool \<times> pynum) \<Rightarrow> 'a list \<Rightarrow> bool" where
  "nan_free_keys f xs = list_all (\<lambda>x. num_val (snd (f x)) \<noteq> NaN) xs"

text \<open>No key of the list is less than the key before it.\<close>

definition ascending_run :: "('a \<Rightarrow> bool \<times> pynum) \<Rightarrow> 'a list \<Rightarrow> bool" where
  "ascending_run f xs = successively (\<lambda>a b. \<not> key_lt (f b) (f a)) xs"

text \<open>
  What is taken for granted of \<open>sorted\<close>. It returns the elements it was given, each
  as often as it was given. Where no key is a NaN it is a stable sort by \<open><\<close>, whose
  result does not depend on the algorithm. CPython's sort begins by looking for a run:
  a list in which no key is less than the key before it is one run, and it is returned
  as it is, whatever the keys are. On other lists with a NaN among the keys the order
  depends on the algorithm and nothing is said of it.
\<close>

definition sorted_contract :: "runtime \<Rightarrow> bool" where
  "sorted_contract rt \<longleftrightarrow>
     (\<forall>f xs. mset (py_sorted rt f xs) = mset xs) \<and>
     (\<forall>f xs. nan_free_keys f xs \<longrightarrow> py_sorted rt f xs = insertion_sort key_lt f xs) \<and>
     (\<forall>f xs. ascending_run f xs \<longrightarrow> py_sorted rt f xs = xs)"

definition evaluate_candidates_with_llm ::
  "runtime \<Rightarrow> backend \<Rightarrow> pydict list \<Rightarrow> pyval \<Rightarrow> scorer option \<Rightarrow>
   py_exception + canonical_result list" where
  "evaluate_candidates_with_llm rt llm_backend candidates config llm_client =
     (case evaluate_loop rt llm_backend llm_client config 1 candidates [] of
        Inl e \<Rightarrow> Inl e
      | Inr results \<Rightarrow> Inr (py_sorted rt sort_key' results))"

section \<open>The scorer backend (\<open>llm_backend.py\<close>)\<close>

text \<open>
  The three values imported from the module \<open>constants\<close>, each \<open>None\<close> or a string. The
  module itself is not part of the sources at hand, so the values are parameters.
\<close>

record constants =
  CLOUDFLARE_API_TOKEN :: "pystr option"
  CLOUDFLARE_ACCOUNT_ID :: "pystr option"
  CLOUDFLARE_MODEL :: "pystr option"

text \<open>The truth value of an optional string: \<open>None\<close> and the empty string are falsy.\<close>

fun str_truthy :: "pystr option \<Rightarrow> bool" where
  "str_truthy None = False"
| "str_truthy (Some s) = (s \<noteq> [])"

text \<open>The check the application runs at startup, before any candidate is processed.\<close>

definition is_ollama_installed :: "constants \<Rightarrow> bool" where
  "is_ollama_installed c \<longleftrightarrow>
     str_truthy (CLOUDFLARE_API_TOKEN c) \<and> str_truthy (CLOUDFLARE_ACCOUNT_ID c)"

definition get_cloudflare_config ::
  "constants \<Rightarrow> pystr option \<Rightarrow> py_exception + pystr option \<times> pystr option \<times> pystr option" where
  "get_cloudflare_config c model =
     (let account_id = CLOUDFLARE_ACCOUNT_ID c;
          api_token = CLOUDFLARE_API_TOKEN c;
          model_name = (if str_truthy model then model else CLOUDFLARE_MODEL c)
      in if \<not> str_truthy account_id
         then Inl (RuntimeError (lit ''Missing CLOUDFLARE_ACCOUNT_ID environment variable.''))
         else if \<not> str_truthy api_token
         then Inl (RuntimeError (lit ''Missing CLOUDFLARE_API_TOKEN environment variable.''))
         else if \<not> str_truthy model_name
         then Inl (RuntimeError
                (lit ''Cloudflare model name is empty. Set CLOUDFLARE_MODEL or pass model explicitly.''))
         else Inr (account_id, api_token, model_name))"

text \<open>The text that \<open>score_candidate\<close> sends: a fixed preamble, then the prompt.\<close>

definition full_prompt :: "pystr \<Rightarrow> pystr" where
  "full_prompt prompt =
     lit ''You are an assistant that scores candidates for a software engineering role. '' @
     lit ''Return a single STRICT JSON object following the schema described in the prompt. '' @
     lit ''The JSON must be valid (double-quoted keys/strings, no comments, no trailing commas).\<newline>\<newline>'' @
     prompt"

text \<open>
  \<open>score_candidate\<close>: the configuration is resolved first, on every call. The HTTP
  request and the extraction of the reply text from the response are the parameter
  \<open>request\<close>, which receives the number of the call, the account, the token, the model
  and the full prompt.
\<close>

definition score_candidate ::
  "constants \<Rightarrow>
   (nat \<Rightarrow> pystr option \<Rightarrow> pystr option \<Rightarrow> pystr option \<Rightarrow> pystr \<Rightarrow> py_exception + pystr) \<Rightarrow>
   pystr option \<Rightarrow> scorer" where
  "score_candidate c request model idx prompt =
     (case get_cloudflare_config c model of
        Inl e \<Rightarrow> Inl e
      | Inr (account_id, api_token, model_name) \<Rightarrow>
          request idx account_id api_token model_name (full_prompt prompt))"

section \<open>The PDF loader (\<open>pdf_parser.py\<close>)\<close>

text \<open>
  What \<open>read()\<close> of a file-like object gives, and the shapes of input that
  \<open>load_pdf_binary\<close> tells apart, in the order in which it tests them.
\<close>

datatype read_result =
    ReadBytes pybytes
  | ReadBytearray pybytes
  | ReadStr pystr
  | ReadOther
  | ReadRaises py_exception

datatype pdf_contents =
    Bytes pybytes
  | Bytearray pybytes
  | FileLike read_result
  | Str pystr
  | Unsupported

text \<open>A number in lower-case hexadecimal, padded with zeros to a width.\<close>

definition hex_digit :: "nat \<Rightarrow> nat" where
  "hex_digit d = (if d < 10 then 48 + d else 87 + d)"

fun hex_padded :: "nat \<Rightarrow> nat \<Rightarrow> pystr" where
  "hex_padded 0 n = []"
| "hex_padded (Suc w) n = hex_padded w (n div 16) @ [hex_digit (n mod 16)]"

text \<open>
  \<open>s.encode('latin-1')\<close>: the code points up to 255 are the byte values. The error
  names the first character that has no byte, or the positions of the first run of
  such characters when the run is longer than one. The quote has code 39 and the
  backslash code 92.
\<close>

definition encode_latin_1 :: "pystr \<Rightarrow> py_exception + pybytes" where
  "encode_latin_1 s =
     (if list_all (\<lambda>c. c < 256) s then Inr (map char_of s)
      else
        (let start = length (takeWhile (\<lambda>c. c < 256) s);
             end' = start + length (takeWhile (\<lambda>c. \<not> c < 256) (drop start s));
             badchar = s ! start
         in Inl (UnicodeEncodeError
              ([39] @ lit ''latin-1'' @ [39] @
               (if end' = start + 1
                then lit '' codec can'' @ [39] @ lit ''t encode character '' @ [39, 92] @
                     (if badchar \<le> 65535 then lit ''u'' @ hex_padded 4 badchar
                      else lit ''U'' @ hex_padded 8 badchar) @
                     [39] @ lit '' in position '' @ str_nat start
                else lit '' codec can'' @ [39] @ lit ''t encode characters in position '' @
                     str_nat start @ lit ''-'' @ str_nat (end' - 1)) @
               lit '': ordinal not in range(256)''))))"

definition is_pdf_bytes :: "pybytes \<Rightarrow> bool" where
  "is_pdf_bytes data \<longleftrightarrow> take 5 data = ''%PDF-''"

definition load_pdf_binary :: "pdf_contents \<Rightarrow> py_exception + pybytes" where
  "load_pdf_binary contents =
     (case (case contents of
              Bytes b \<Rightarrow> Inr b
            | Bytearray b \<Rightarrow> Inr b
            | FileLike raw \<Rightarrow>
                (case raw of
                   ReadBytes b \<Rightarrow> Inr b
                 | ReadBytearray b \<Rightarrow> Inr b
                 | ReadStr s \<Rightarrow> encode_latin_1 s
                 | ReadOther \<Rightarrow> Inl (TypeError (lit ''file.read() returned unsupported type''))
                 | ReadRaises e \<Rightarrow> Inl e)
            | Str s \<Rightarrow> encode_latin_1 s
            | Unsupported \<Rightarrow>
                Inl (TypeError
                  (lit ''Unsupported input type for load_pdf_binary; expected bytes, file-like, or str''))) of
        Inl e \<Rightarrow> Inl e
      | Inr data \<Rightarrow>
          if \<not> is_pdf_bytes data
          then Inl (ValueError
                 (lit ''Provided data does not appear to be a PDF (missing %PDF- header)''))
          else Inr data)"

section \<open>Properties of a ranking\<close>

text \<open>
  Scores never rise along the list: of two results that both have a score, the earlier
  one is \<open>>=\<close> the later one.
\<close>

definition descending_scores :: "canonical_result list \<Rightarrow> bool" where
  "descending_scores rs =
     sorted_wrt (\<lambda>a b. case (llm_score a, llm_score b) of
                          (Some x, Some y) \<Rightarrow> float_ge x y
                        | _ \<Rightarrow> True) rs"

text \<open>Every result without a score comes after every result with one.\<close>

definition unscored_last :: "canonical_result list \<Rightarrow> bool" where
  "unscored_last rs = sorted_wrt (\<lambda>a b. llm_score a = None \<longrightarrow> llm_score b = None) rs"

text \<open>The identity of a candidate and of a result: the values under \<open>id\<close> and \<open>name\<close>.\<close>

definition candidate_identity :: "pydict \<Rightarrow> pyval \<times> pyval" where
  "candidate_identity cand = (dict_get cand (lit ''id'') PNone, dict_get cand (lit ''name'') PNone)"

definition result_identity :: "canonical_result \<Rightarrow> pyval \<times> pyval" where
  "result_identity r = (id' r, name r)"

section \<open>Example data\<close>

text \<open>
  Three candidates and a few scorers, used to evaluate the definitions on concrete
  input. The decoder knows the replies of the example scorers and decodes them as
  \<open>json.loads\<close> does; the integer of the last reply has 401 digits. The sort of the
  example runtime is the insertion sort, which meets \<open>sorted_contract\<close>.
\<close>

definition huge_reply :: pystr where
  "huge_reply = lit ''{\"score\": 1'' @ replicate 400 48 @ lit ''}''"

definition huge_score :: int where
  "huge_score = 10 ^ 400"

definition example_loads :: "pystr \<Rightarrow> py_exception + pydict" where
  "example_loads s =
     (if s = lit ''{\"score\": 0.5}'' then Inr [(lit ''score'', PFloat (Finite (1 / 2)))]
      else if s = lit ''{\"score\": 1}'' then Inr [(lit ''score'', PInt 1)]
      else if s = lit ''{\"score\": NaN}'' then Inr [(lit ''score'', PFloat NaN)]
      else if s = huge_reply then Inr [(lit ''score'', PInt huge_score)]
      else Inl (JSONDecodeError (lit ''Expecting value'') s 0))"

definition example_repr :: "pyval \<Rightarrow> pystr" where
  "example_repr v = (case v of PInt n \<Rightarrow> str_int n | _ \<Rightarrow> lit ''...'')"

definition example_runtime :: runtime where
  "example_runtime =
     \<lparr> json_dumps = (\<lambda>v. Inr (lit ''{}'')),
       json_loads = example_loads,
       py_repr = example_repr,
       py_sorted = insertion_sort key_lt \<rparr>"

definition cand_a :: pydict where
  "cand_a = [(lit ''id'', PStr (lit ''./resumes/a.pdf'')), (lit ''name'', PStr (lit ''a.pdf''))]"

definition cand_b :: pydict where
  "cand_b = [(lit ''id'', PStr (lit ''./resumes/b.pdf'')), (lit ''name'', PStr (lit ''b.pdf''))]"

definition cand_c :: pydict where
  "cand_c = [(lit ''id'', PStr (lit ''./resumes/c.pdf''))]"

text \<open>The canonical result of a reply that holds a score and nothing else.\<close>

definition score_only_result ::
  "pydict \<Rightarrow> pystr \<Rightarrow> pyfloat option \<Rightarrow> pyfloat option \<Rightarrow> canonical_result" where
  "score_only_result cand raw s s10 =
     \<lparr> id' = dict_get cand (lit ''id'') PNone,
       name = dict_get cand (lit ''name'') PNone,
       llm_score = s,
       score_10 = s10,
       breakdown = [],
       passed_required = False,
       reasons = [],
       raw_llm_output = Some raw,
       explanation = PNone \<rparr>"

text \<open>
  Four scorers that differ in their second reply: a score, an exception, a NaN, a
  sentence without a JSON object. The reply of the fifth holds a huge integer.
\<close>

definition scorer_tie :: scorer where
  "scorer_tie idx prompt =
     (if idx = 3 then Inr (lit ''{\"score\": 1}'') else Inr (lit ''{\"score\": 0.5}''))"

definition scorer_failing :: scorer where
  "scorer_failing idx prompt =
     (if idx = 2 then Inl (RuntimeError (lit ''Error calling Cloudflare AI API: timed out''))
      else scorer_tie idx prompt)"

definition scorer_nan :: scorer where
  "scorer_nan idx prompt =
     (if idx = 2 then Inr (lit ''{\"score\": NaN}'') else scorer_tie idx prompt)"

definition scorer_prose :: scorer where
  "scorer_prose idx prompt =
     (if idx = 2 then Inr (lit ''  I cannot score this. '') else scorer_tie idx prompt)"

definition scorer_huge :: scorer where
  "scorer_huge idx prompt = Inr huge_reply"

text \<open>A configuration with the credentials set and the model name empty.\<close>

definition constants_without_model :: constants where
  "constants_without_model =
     \<lparr> CLOUDFLARE_API_TOKEN = Some (lit ''token''),
       CLOUDFLARE_ACCOUNT_ID = Some (lit ''account''),
       CLOUDFLARE_MODEL = Some [] \<rparr>"

definition constants_complete :: constants where
  "constants_complete =
     \<lparr> CLOUDFLARE_API_TOKEN = Some (lit ''token''),
       CLOUDFLARE_ACCOUNT_ID = Some (lit ''account''),
       CLOUDFLARE_MODEL = Some (lit ''@cf/meta/llama-3-8b-instruct'') \<rparr>"

definition request_ok ::
  "nat \<Rightarrow> pystr option \<Rightarrow> pystr option \<Rightarrow> pystr option \<Rightarrow> pystr \<Rightarrow> py_exception + pystr" where
  "request_ok idx account_id api_token model_name sent = Inr (lit ''{\"score\": 0.5}'')"

section \<open>Auxiliary facts\<close>

subsection \<open>Rounding of small integers\<close>

lemma round_half_even_of_int: "round_half_even (of_int j) = j"
  by (simp add: round_half_even_def)

lemma floor_log2_of_int: "1 \<le> k \<Longrightarrow> floor_log2 (of_int k) = bitlen k - 1"
  by (simp add: floor_log2_def)

lemma bitlen_le_54: assumes "1 \<le> k" "k \<le> 2 ^ 53" shows "bitlen k \<le> 54"
proof -
  have "k < 2 ^ 54" using assms by simp
  thus ?thesis using assms by (simp add: bitlen_le_iff_power)
qed

lemma round_double_pos_int:
  assumes "1 \<le> k" "k \<le> 2 ^ 53"
  shows "round_double (of_int k) = Finite (of_int k)"
proof -
  let ?a = "of_int k :: rat"
  have b1: "1 \<le> bitlen k" using assms bitlen_bounds[of k] bitlen_eq_zero_iff[of k] bitlen_nonneg[of k] by linarith
  have b2: "bitlen k \<le> 54" by (rule bitlen_le_54[OF assms])
  define q where "q = max (floor_log2 ?a - 52) (- 1074)"
  have q: "q = bitlen k - 53" using b1 by (simp add: q_def floor_log2_of_int assms)
  have r: "of_int (round_half_even (?a / pow2 q)) * pow2 q = ?a"
  proof (cases "q \<le> 0")
    case True
    have "?a / pow2 q = of_int (k * 2 ^ nat (- q))"
      using True by (cases "q = 0") (simp_all add: pow2_def)
    hence "round_half_even (?a / pow2 q) = k * 2 ^ nat (- q)"
      by (simp only: round_half_even_of_int)
    thus ?thesis using True by (cases "q = 0") (simp_all add: pow2_def)
  next
    case False
    hence q1: "q = 1" using q b2 by simp
    hence "bitlen k = 54" using q by simp
    hence "2 ^ 53 \<le> k" using bitlen_bounds[of k] assms by simp
    hence k: "k = 2 ^ 53" using assms by simp
    show ?thesis unfolding q1 k by (simp add: pow2_def round_half_even_def)
  qed
  have nov: "\<not> pow2 1024 \<le> ?a"
  proof -
    have "?a \<le> 2 ^ 53" using assms(2) by (metis of_int_le_iff of_int_numeral of_int_power)
    thus ?thesis by (simp add: pow2_def)
  qed
  have pos: "0 < ?a" "?a \<noteq> 0" using assms by simp_all
  show ?thesis
    unfolding round_double_def using pos r nov
    by (simp add: Let_def q_def[symmetric] del: of_int_le_iff)
qed

lemma round_double_minus: "round_double (- x) = float_neg (round_double x)"
  by (simp add: round_double_def Let_def)

lemma round_double_zero: "round_double 0 = Finite 0"
  by (simp add: round_double_def)

lemma round_double_int:
  assumes "\<bar>k\<bar> \<le> 2 ^ 53"
  shows "round_double (of_int k) = Finite (of_int k)"
proof -
  consider "k = 0" | "1 \<le> k" | "1 \<le> - k" by linarith
  then show ?thesis
  proof cases
    case 1
    then show ?thesis by (simp add: round_double_zero)
  next
    case 2
    then show ?thesis using assms by (intro round_double_pos_int) auto
  next
    case 3
    hence "round_double (of_int (- k)) = Finite (of_int (- k))"
      using assms by (intro round_double_pos_int) auto
    hence "float_neg (round_double (of_int k)) = Finite (- of_int k)"
      by (simp add: round_double_minus)
    then show ?thesis by (cases "round_double (of_int k)") auto
  qed
qed

lemma round_double_numeral:
  "(numeral w :: int) \<le> 2 ^ 53 \<Longrightarrow> round_double (numeral w) = Finite (numeral w)"
  using round_double_int[of "numeral w"] by simp

lemma round_double_one: "round_double 1 = Finite 1"
  using round_double_int[of 1] by simp

lemma float_of_int_small:
  "\<bar>n\<bar> \<le> 2 ^ 53 \<Longrightarrow> float_of_int n = Inr (Finite (of_int n))"
proof -
  assume a: "\<bar>n\<bar> \<le> 2 ^ 53"
  have "(2::int) ^ 53 < 2 ^ 1024 - 2 ^ 970" by simp
  hence "\<not> 2 ^ 1024 - 2 ^ 970 \<le> \<bar>n\<bar>" using a by linarith
  thus ?thesis using a by (simp add: float_of_int_def round_double_int)
qed


subsection \<open>Searching a string\<close>

lemma str_find_ge: "- 1 \<le> str_find s c"
  by (induction s) (auto simp: Let_def)

lemma str_find_minus1_iff: "str_find s c = - 1 \<longleftrightarrow> c \<notin> set s"
proof (induction s)
  case Nil
  show ?case by simp
next
  case (Cons x xs)
  show ?case using Cons.IH str_find_ge[of xs c] by (auto simp: Let_def)
qed

lemma str_find_nonneg: "c \<in> set s \<Longrightarrow> 0 \<le> str_find s c"
  using str_find_ge[of s c] str_find_minus1_iff[of s c] by linarith

lemma str_find_first:
  "c \<in> set s \<Longrightarrow>
     nat (str_find s c) < length s \<and> s ! nat (str_find s c) = c \<and>
     (\<forall>j < nat (str_find s c). s ! j \<noteq> c)"
proof (induction s)
  case Nil
  then show ?case by simp
next
  case (Cons x xs)
  show ?case
  proof (cases "x = c")
    case True
    then show ?thesis by simp
  next
    case False
    with Cons.prems have in_xs: "c \<in> set xs" by simp
    have nn: "0 \<le> str_find xs c" by (rule str_find_nonneg[OF in_xs])
    have ne: "str_find xs c \<noteq> - 1" using in_xs by (simp add: str_find_minus1_iff)
    have eq: "nat (str_find (x # xs) c) = Suc (nat (str_find xs c))"
      using False ne nn by (simp add: Let_def nat_add_distrib)
    from Cons.IH[OF in_xs] show ?thesis
      unfolding eq using False by (auto simp: nth_Cons split: nat.splits)
  qed
qed

lemma str_rfind_minus1_iff: "str_rfind s c = - 1 \<longleftrightarrow> c \<notin> set s"
proof -
  have "str_find (rev s) c \<noteq> - 1 \<Longrightarrow> int (length s) - 1 - str_find (rev s) c \<noteq> - 1"
    using str_find_first[of c "rev s"] str_find_nonneg[of c "rev s"]
    by (auto simp: str_find_minus1_iff)
  thus ?thesis
    by (auto simp: str_rfind_def Let_def str_find_minus1_iff)
qed


lemma str_rfind_last:
  assumes "c \<in> set s"
  shows "nat (str_rfind s c) < length s \<and> s ! nat (str_rfind s c) = c \<and>
         (\<forall>j. nat (str_rfind s c) < j \<and> j < length s \<longrightarrow> s ! j \<noteq> c)"
proof -
  let ?r = "nat (str_find (rev s) c)"
  from assms have in_rev: "c \<in> set (rev s)" by simp
  from str_find_first[OF in_rev]
  have r_lt: "?r < length s" and r_c: "rev s ! ?r = c"
    and r_first: "\<And>j. j < ?r \<Longrightarrow> rev s ! j \<noteq> c" by simp_all
  have nn: "0 \<le> str_find (rev s) c" by (rule str_find_nonneg[OF in_rev])
  have ne: "str_find (rev s) c \<noteq> - 1" using in_rev by (simp add: str_find_minus1_iff)
  have eq: "nat (str_rfind s c) = length s - 1 - ?r"
    using ne nn r_lt by (simp add: str_rfind_def Let_def nat_diff_distrib')
  have 1: "length s - 1 - ?r < length s" using r_lt by simp
  have 2: "s ! (length s - 1 - ?r) = c"
    using r_c r_lt by (simp add: rev_nth)
  have 3: "s ! j \<noteq> c" if "length s - 1 - ?r < j" "j < length s" for j
  proof -
    have j': "length s - 1 - j < ?r" using that r_lt by linarith
    hence "rev s ! (length s - 1 - j) \<noteq> c" by (rule r_first)
    moreover have "length s - 1 - j < length s" using that by simp
    ultimately show ?thesis using that by (simp add: rev_nth)
  qed
  show ?thesis unfolding eq using 1 2 3 by blast
qed

subsection \<open>Replies that are one braced object\<close>

lemma str_endswith_last: "str_endswith s p \<Longrightarrow> p \<noteq> [] \<Longrightarrow> last s = last p"
  unfolding str_endswith_def by (metis drop_eq_Nil last_drop not_le)

lemma dropWhile_hd: "xs \<noteq> [] \<Longrightarrow> \<not> P (hd xs) \<Longrightarrow> dropWhile P xs = xs"
  by (cases xs) auto

lemma str_strip_no_space:
  assumes "s \<noteq> []" "\<not> isspace (hd s)" "\<not> isspace (last s)"
  shows "str_strip s = s"
proof -
  have 1: "dropWhile isspace s = s" using assms by (intro dropWhile_hd) auto
  have "rev s \<noteq> []" "\<not> isspace (hd (rev s))" using assms by (simp_all add: hd_rev)
  hence 2: "dropWhile isspace (rev s) = rev s" by (rule dropWhile_hd)
  show ?thesis by (simp add: str_strip_def 1 2)
qed

lemma strip_fences_braced:
  assumes "s \<noteq> []" "hd s = 123" "last s = 125"
  shows "strip_fences s = s"
proof -
  have strip: "str_strip s = s"
    using assms by (intro str_strip_no_space) (simp_all add: isspace_def)
  have starts: "\<not> str_startswith s (lit ''```'')"
    using assms by (cases s) (auto simp: str_startswith_def lit_def)
  have ends: "\<not> str_endswith s (lit ''```'')"
    using str_endswith_last[of s "lit ''```''"] assms by (auto simp: lit_def)
  show ?thesis by (simp add: strip_fences_def strip starts ends)
qed

lemma parse_braced:
  assumes "s \<noteq> []" "hd s = 123" "last s = 125"
  shows "parse_llm_json_response rt s =
     (case json_loads rt s of
        Inr parsed \<Rightarrow> Inr parsed
      | Inl (JSONDecodeError msg doc pos) \<Rightarrow>
          (case json_loads rt (s @ lit ''}'') of
             Inr parsed \<Rightarrow> Inr parsed
           | Inl (JSONDecodeError msg2 doc2 pos2) \<Rightarrow>
               Inl (ValueError
                 (lit ''Failed to parse JSON snippet: '' @ msg @ lit '' (pos '' @
                  str_nat pos @ lit ''). Snippet preview: '' @ str_replace (take 200 s) 10 32))
           | Inl e \<Rightarrow> Inl e)
      | Inl e \<Rightarrow> Inl e)"
proof -
  have start: "str_find s 123 = 0" using assms by (cases s) auto
  have "rev s \<noteq> []" "hd (rev s) = 125" using assms by (simp_all add: hd_rev)
  hence "str_find (rev s) 125 = 0" by (cases "rev s") auto
  hence end': "str_rfind s 125 = int (length s) - 1" by (simp add: str_rfind_def)
  have len: "0 < length s" using assms by simp
  have snippet: "slice s 0 (int (length s) - 1 + 1) = s" by (simp add: slice_def)
  show ?thesis
    unfolding parse_llm_json_response_def strip_fences_braced[OF assms] Let_def start end' snippet
    using len by (simp cong: sum.case_cong py_exception.case_cong)
qed

subsection \<open>The loop\<close>

lemma evaluate_loop_acc:
  "evaluate_loop rt be cl config idx cands acc =
     (case evaluate_loop rt be cl config idx cands [] of
        Inl e \<Rightarrow> Inl e
      | Inr rs \<Rightarrow> Inr (acc @ rs))"
proof (induction cands arbitrary: idx acc)
  case Nil
  show ?case by simp
next
  case (Cons c cs)
  show ?case
  proof (cases "evaluate_candidate rt be cl config idx c")
    case (Inl e)
    then show ?thesis by simp
  next
    case (Inr r)
    have a: "evaluate_loop rt be cl config (Suc idx) cs (acc @ [r]) =
       (case evaluate_loop rt be cl config (Suc idx) cs [] of
          Inl e \<Rightarrow> Inl e | Inr rs \<Rightarrow> Inr ((acc @ [r]) @ rs))"
      by (rule Cons.IH)
    have b: "evaluate_loop rt be cl config (Suc idx) cs [r] =
       (case evaluate_loop rt be cl config (Suc idx) cs [] of
          Inl e \<Rightarrow> Inl e | Inr rs \<Rightarrow> Inr ([r] @ rs))"
      by (rule Cons.IH)
    show ?thesis
    proof (cases "evaluate_loop rt be cl config (Suc idx) cs []")
      case (Inl e)
      with a b Inr show ?thesis by simp
    next
      case rest: (Inr rs)
      with a b Inr show ?thesis by simp
    qed
  qed
qed


lemma evaluate_loop_Cons:
  "evaluate_loop rt be cl config idx (c # cs) [] =
     (case evaluate_candidate rt be cl config idx c of
        Inl e \<Rightarrow> Inl e
      | Inr r \<Rightarrow>
          (case evaluate_loop rt be cl config (Suc idx) cs [] of
             Inl e \<Rightarrow> Inl e
           | Inr rs \<Rightarrow> Inr (r # rs)))"
proof (cases "evaluate_candidate rt be cl config idx c")
  case (Inl e)
  then show ?thesis by simp
next
  case (Inr r)
  have "evaluate_loop rt be cl config (Suc idx) cs [r] =
       (case evaluate_loop rt be cl config (Suc idx) cs [] of
          Inl e \<Rightarrow> Inl e | Inr rs \<Rightarrow> Inr ([r] @ rs))"
    by (rule evaluate_loop_acc)
  with Inr show ?thesis by (simp split: sum.splits)
qed

lemma evaluate_loop_Cons_iff:
  "evaluate_loop rt be cl config idx (c # cs) [] = Inr rs \<longleftrightarrow>
     (\<exists>r rs0. rs = r # rs0 \<and> evaluate_candidate rt be cl config idx c = Inr r \<and>
        evaluate_loop rt be cl config (Suc idx) cs [] = Inr rs0)"
  unfolding evaluate_loop_Cons by (auto split: sum.splits)

lemma evaluate_loop_iff:
  "evaluate_loop rt be cl config idx cands [] = Inr rs \<longleftrightarrow>
     length rs = length cands \<and>
     (\<forall>j < length cands. evaluate_candidate rt be cl config (idx + j) (cands ! j) = Inr (rs ! j))"
proof (induction cands arbitrary: idx rs)
  case Nil
  show ?case by auto
next
  case (Cons c cs)
  have split_all: "\<And>P n. (\<forall>j < Suc n. P j) \<longleftrightarrow> P 0 \<and> (\<forall>j < n. P (Suc j))"
    by (auto simp: less_Suc_eq_0_disj)
  show ?case
  proof (cases rs)
    case Nil
    then show ?thesis unfolding evaluate_loop_Cons_iff by simp
  next
    case (Cons r rs0)
    show ?thesis
      unfolding evaluate_loop_Cons_iff Cons.IH[of "Suc idx"] Cons
      by (auto simp: split_all)
  qed
qed

lemma canonical_identity:
  "canonical rt cand raw parsed = Inr r \<Longrightarrow> result_identity r = candidate_identity cand"
  unfolding canonical_def Let_def result_identity_def candidate_identity_def
  by (auto split: sum.splits)

lemma failure_identity: "result_identity (failure_result cand e) = candidate_identity cand"
  by (simp add: failure_result_def result_identity_def candidate_identity_def)

lemma evaluate_candidate_prompt:
  "build_prompt_for_candidate rt cand config = Inr prompt \<Longrightarrow>
     evaluate_candidate rt be cl config idx cand =
       (case call_and_parse rt be cl idx prompt of
          Inl e \<Rightarrow> Inr (failure_result cand e)
        | Inr (raw, parsed) \<Rightarrow> canonical rt cand raw parsed)"
  by (simp add: evaluate_candidate_def)

lemma evaluate_candidate_no_prompt:
  "build_prompt_for_candidate rt cand config = Inl e \<Longrightarrow>
     evaluate_candidate rt be cl config idx cand = Inl e"
  by (simp add: evaluate_candidate_def)

lemma evaluate_candidate_Inr_prompt:
  assumes "evaluate_candidate rt be cl config idx cand = Inr r"
  shows "\<exists>prompt. build_prompt_for_candidate rt cand config = Inr prompt"
  using assms by (cases "build_prompt_for_candidate rt cand config") (simp_all add: evaluate_candidate_def)

lemma evaluate_candidate_identity:
  assumes "evaluate_candidate rt be cl config idx cand = Inr r"
  shows "result_identity r = candidate_identity cand"
proof -
  from evaluate_candidate_Inr_prompt[OF assms] obtain prompt
    where prompt: "build_prompt_for_candidate rt cand config = Inr prompt" by blast
  show ?thesis
  proof (cases "call_and_parse rt be cl idx prompt")
    case (Inl e)
    with assms prompt have "r = failure_result cand e" by (simp add: evaluate_candidate_def)
    thus ?thesis by (simp add: failure_identity)
  next
    case (Inr p)
    obtain raw parsed where p: "p = (raw, parsed)" by (cases p)
    from assms prompt Inr p have "canonical rt cand raw parsed = Inr r"
      by (simp add: evaluate_candidate_def)
    thus ?thesis by (rule canonical_identity)
  qed
qed

lemma evaluate_loop_identities:
  assumes "evaluate_loop rt be cl config idx cands [] = Inr rs"
  shows "map result_identity rs = map candidate_identity cands"
proof (rule nth_equalityI)
  from assms show "length (map result_identity rs) = length (map candidate_identity cands)"
    by (simp add: evaluate_loop_iff)
next
  fix j assume "j < length (map result_identity rs)"
  hence j: "j < length cands" using assms by (simp add: evaluate_loop_iff)
  hence "evaluate_candidate rt be cl config (idx + j) (cands ! j) = Inr (rs ! j)"
    using assms by (simp add: evaluate_loop_iff)
  hence "result_identity (rs ! j) = candidate_identity (cands ! j)"
    by (rule evaluate_candidate_identity)
  thus "map result_identity rs ! j = map candidate_identity cands ! j"
    using j assms by (simp add: evaluate_loop_iff)
qed

subsection \<open>The sort\<close>

lemma mset_insort_lt: "mset (insort_lt lt f x ys) = add_mset x (mset ys)"
  by (induction ys) auto

lemma mset_insertion_sort: "mset (insertion_sort lt f xs) = mset xs"
  by (induction xs) (simp_all add: insertion_sort_def mset_insort_lt)

lemma set_insertion_sort: "set (insertion_sort lt f xs) = set xs"
  using mset_insertion_sort[of lt f xs] by (metis set_mset_mset)

lemma length_insertion_sort: "length (insertion_sort lt f xs) = length xs"
  using mset_insertion_sort[of lt f xs] by (metis size_mset)

lemma filter_insort_lt_other:
  "\<not> P x \<Longrightarrow> filter P (insort_lt lt f x ys) = filter P ys"
  by (induction ys) auto

lemma filter_insort_lt_same:
  "P x \<Longrightarrow> (\<forall>y \<in> set ys. P y \<longrightarrow> \<not> lt (f y) (f x)) \<Longrightarrow>
     filter P (insort_lt lt f x ys) = x # filter P ys"
  by (induction ys) auto

lemma insertion_sort_stable:
  assumes "\<And>x y. P x \<Longrightarrow> P y \<Longrightarrow> \<not> lt (f y) (f x)"
  shows "filter P (insertion_sort lt f xs) = filter P xs"
proof (induction xs)
  case Nil
  show ?case by (simp add: insertion_sort_def)
next
  case (Cons x xs)
  have unfold: "insertion_sort lt f (x # xs) = insort_lt lt f x (insertion_sort lt f xs)"
    by (simp add: insertion_sort_def)
  show ?case
  proof (cases "P x")
    case True
    have "\<forall>y \<in> set (insertion_sort lt f xs). P y \<longrightarrow> \<not> lt (f y) (f x)"
      using assms True by blast
    from filter_insort_lt_same[of P x "insertion_sort lt f xs" lt f, OF True this] show ?thesis
      using Cons.IH True by (simp add: unfold)
  next
    case False
    then show ?thesis using Cons.IH by (simp add: unfold filter_insort_lt_other)
  qed
qed

lemma sorted_wrt_insort_lt:
  assumes good: "G (f x)" "\<forall>y \<in> set ys. G (f y)"
      and asym: "\<And>a b. G a \<Longrightarrow> G b \<Longrightarrow> lt a b \<Longrightarrow> \<not> lt b a"
      and weak: "\<And>a b c. G a \<Longrightarrow> G b \<Longrightarrow> G c \<Longrightarrow> lt c a \<Longrightarrow> lt c b \<or> lt b a"
      and sorted: "sorted_wrt (\<lambda>a b. \<not> lt (f b) (f a)) ys"
  shows "sorted_wrt (\<lambda>a b. \<not> lt (f b) (f a)) (insort_lt lt f x ys)"
  using good(2) sorted
proof (induction ys)
  case Nil
  show ?case by simp
next
  case (Cons y ys)
  have Gy: "G (f y)" using Cons.prems(1) by simp
  show ?case
  proof (cases "lt (f y) (f x)")
    case True
    have tail: "sorted_wrt (\<lambda>a b. \<not> lt (f b) (f a)) (insort_lt lt f x ys)"
      using Cons by simp
    have "\<forall>z \<in> set (insort_lt lt f x ys). \<not> lt (f z) (f y)"
    proof
      fix z assume "z \<in> set (insort_lt lt f x ys)"
      hence "z \<in># mset (insort_lt lt f x ys)" by simp
      hence "z = x \<or> z \<in> set ys" by (simp add: mset_insort_lt)
      thus "\<not> lt (f z) (f y)"
        using True asym[OF Gy good(1)] Cons.prems(2) by auto
    qed
    then show ?thesis using True tail by simp
  next
    case False
    have "\<forall>z \<in> set ys. \<not> lt (f z) (f x)"
    proof
      fix z assume z: "z \<in> set ys"
      hence Gz: "G (f z)" using Cons.prems(1) by simp
      have "\<not> lt (f z) (f y)" using Cons.prems(2) z by simp
      thus "\<not> lt (f z) (f x)" using weak[OF good(1) Gy Gz] False by blast
    qed
    then show ?thesis using False Cons.prems(2) by simp
  qed
qed

lemma sorted_wrt_insertion_sort:
  assumes good: "\<forall>x \<in> set xs. G (f x)"
      and asym: "\<And>a b. G a \<Longrightarrow> G b \<Longrightarrow> lt a b \<Longrightarrow> \<not> lt b a"
      and weak: "\<And>a b c. G a \<Longrightarrow> G b \<Longrightarrow> G c \<Longrightarrow> lt c a \<Longrightarrow> lt c b \<or> lt b a"
  shows "sorted_wrt (\<lambda>a b. \<not> lt (f b) (f a)) (insertion_sort lt f xs)"
  using good
proof (induction xs)
  case Nil
  show ?case by (simp add: insertion_sort_def)
next
  case (Cons x xs)
  have unfold: "insertion_sort lt f (x # xs) = insort_lt lt f x (insertion_sort lt f xs)"
    by (simp add: insertion_sort_def)
  have s: "sorted_wrt (\<lambda>a b. \<not> lt (f b) (f a)) (insertion_sort lt f xs)"
    using Cons by simp
  have g: "\<forall>y \<in> set (insertion_sort lt f xs). G (f y)"
    using Cons.prems by (simp add: set_insertion_sort)
  have gx: "G (f x)" using Cons.prems by simp
  show ?case
    unfolding unfold by (rule sorted_wrt_insort_lt[where G = G, OF gx g asym weak s])
qed

subsection \<open>The order of the sort keys\<close>

lemma float_lt_irrefl: "\<not> float_lt x x"
  by (cases x) auto

lemma float_lt_asym: "float_lt a b \<Longrightarrow> \<not> float_lt b a"
  by (cases a; cases b) auto

lemma float_lt_weak: "float_lt c a \<Longrightarrow> b \<noteq> NaN \<Longrightarrow> float_lt c b \<or> float_lt b a"
  by (cases a; cases b; cases c) auto

lemma float_lt_not_eq: "float_lt x y \<Longrightarrow> \<not> float_eq x y"
  using float_lt_irrefl by (auto simp: float_eq_def)

lemma key_lt_alt:
  "key_lt a b \<longleftrightarrow>
     (\<not> fst a \<and> fst b) \<or> (fst a = fst b \<and> float_lt (num_val (snd a)) (num_val (snd b)))"
  using float_lt_not_eq[of "num_val (snd a)" "num_val (snd b)"]
  by (auto simp: key_lt_def num_lt_def num_eq_def)

lemma key_lt_irrefl: "\<not> key_lt k k"
  by (simp add: key_lt_alt float_lt_irrefl)

lemma key_lt_asym: "key_lt a b \<Longrightarrow> \<not> key_lt b a"
  using float_lt_asym by (auto simp: key_lt_alt)

lemma key_lt_weak:
  "key_lt c a \<Longrightarrow> num_val (snd b) \<noteq> NaN \<Longrightarrow> key_lt c b \<or> key_lt b a"
  using float_lt_weak[of "num_val (snd c)" "num_val (snd a)" "num_val (snd b)"]
  by (auto simp: key_lt_alt)

lemma fst_sort_key': "fst (sort_key' r) \<longleftrightarrow> llm_score r = None"
  by (simp add: sort_key'_def)

lemma num_val_sort_key':
  "num_val (snd (sort_key' r)) = (case llm_score r of None \<Rightarrow> Finite 0 | Some f \<Rightarrow> float_neg f)"
  by (auto simp: sort_key'_def split: option.splits)

lemma sort_key'_good:
  "llm_score r \<noteq> Some NaN \<Longrightarrow> num_val (snd (sort_key' r)) \<noteq> NaN"
  unfolding num_val_sort_key'
  by (cases "llm_score r") (auto elim: float_neg.elims)

lemma float_ge_of_not_lt_neg:
  "x \<noteq> NaN \<Longrightarrow> y \<noteq> NaN \<Longrightarrow> \<not> float_lt (float_neg y) (float_neg x) \<Longrightarrow> float_ge x y"
  by (cases x; cases y) (auto simp: float_ge_def float_eq_def)

subsection \<open>The sorted results\<close>

lemma sorted_results_by_key:
  assumes "\<forall>r \<in> set rs. llm_score r \<noteq> Some NaN"
  shows "sorted_wrt (\<lambda>a b. \<not> key_lt (sort_key' b) (sort_key' a)) (insertion_sort key_lt sort_key' rs)"
proof (rule sorted_wrt_insertion_sort[where G = "\<lambda>k. num_val (snd k) \<noteq> NaN"])
  show "\<forall>x \<in> set rs. num_val (snd (sort_key' x)) \<noteq> NaN"
    using assms sort_key'_good by blast
next
  fix a b :: "bool \<times> pynum"
  assume "key_lt a b"
  thus "\<not> key_lt b a" by (rule key_lt_asym)
next
  fix a b c :: "bool \<times> pynum"
  assume "num_val (snd b) \<noteq> NaN" "key_lt c a"
  thus "key_lt c b \<or> key_lt b a" using key_lt_weak by blast
qed

lemma sorted_results_descending:
  assumes "\<forall>r \<in> set rs. llm_score r \<noteq> Some NaN"
  shows "descending_scores (insertion_sort key_lt sort_key' rs)"
  unfolding descending_scores_def
proof (rule sorted_wrt_mono_rel[OF _ sorted_results_by_key[OF assms]])
  fix a b
  assume a: "a \<in> set (insertion_sort key_lt sort_key' rs)"
     and b: "b \<in> set (insertion_sort key_lt sort_key' rs)"
     and le: "\<not> key_lt (sort_key' b) (sort_key' a)"
  show "case (llm_score a, llm_score b) of (Some x, Some y) \<Rightarrow> float_ge x y | _ \<Rightarrow> True"
  proof (cases "llm_score a")
    case None
    then show ?thesis by simp
  next
    case sa: (Some x)
    show ?thesis
    proof (cases "llm_score b")
      case None
      then show ?thesis by (simp add: sa)
    next
      case sb: (Some y)
      have x: "x \<noteq> NaN" using a sa assms by (auto simp: set_insertion_sort)
      have y: "y \<noteq> NaN" using b sb assms by (auto simp: set_insertion_sort)
      have "\<not> float_lt (float_neg y) (float_neg x)"
        using le by (simp add: key_lt_alt fst_sort_key' num_val_sort_key' sa sb)
      hence "float_ge x y" by (rule float_ge_of_not_lt_neg[OF x y])
      then show ?thesis by (simp add: sa sb)
    qed
  qed
qed

lemma sorted_wrt_insort_lt_rel:
  assumes sorted: "sorted_wrt U ys"
      and pass: "\<And>y. lt (f y) (f x) \<Longrightarrow> U y x"
      and stop: "\<And>y. \<not> lt (f y) (f x) \<Longrightarrow> U x y"
      and trans: "\<And>a b c. U a b \<Longrightarrow> U b c \<Longrightarrow> U a c"
  shows "sorted_wrt U (insort_lt lt f x ys)"
  using sorted
proof (induction ys)
  case Nil
  show ?case by simp
next
  case (Cons y ys)
  from Cons.prems have s_ys: "sorted_wrt U ys" and y_all: "\<And>z. z \<in> set ys \<Longrightarrow> U y z"
    by simp_all
  have tail: "sorted_wrt U (insort_lt lt f x ys)"
    by (rule Cons.IH[OF s_ys])
  show ?case
  proof (cases "lt (f y) (f x)")
    case True
    have "U y z" if "z \<in> set (insort_lt lt f x ys)" for z
    proof -
      from that have "z \<in># mset (insort_lt lt f x ys)" by simp
      hence "z = x \<or> z \<in> set ys" by (simp add: mset_insort_lt)
      thus ?thesis using pass[OF True] y_all by auto
    qed
    thus ?thesis using True tail by simp
  next
    case False
    have "U x z" if "z \<in> set (y # ys)" for z
    proof (cases "z = y")
      case True
      thus ?thesis using stop[OF False] by simp
    next
      case ne: False
      hence "z \<in> set ys" using that by simp
      hence "U y z" by (rule y_all)
      with stop[OF False] show ?thesis by (rule trans)
    qed
    thus ?thesis using False Cons.prems by simp
  qed
qed

lemma sorted_results_unscored_last: "unscored_last (insertion_sort key_lt sort_key' rs)"
  unfolding unscored_last_def
proof (induction rs)
  case Nil
  show ?case by (simp add: insertion_sort_def)
next
  case (Cons r rs)
  have eq: "insertion_sort key_lt sort_key' (r # rs) =
            insort_lt key_lt sort_key' r (insertion_sort key_lt sort_key' rs)"
    by (simp add: insertion_sort_def)
  show ?case
    unfolding eq
  proof (rule sorted_wrt_insort_lt_rel[OF Cons.IH])
    fix y
    assume "key_lt (sort_key' y) (sort_key' r)"
    thus "llm_score y = None \<longrightarrow> llm_score r = None"
      by (auto simp: key_lt_alt fst_sort_key')
  next
    fix y
    assume "\<not> key_lt (sort_key' y) (sort_key' r)"
    thus "llm_score r = None \<longrightarrow> llm_score y = None"
      by (auto simp: key_lt_alt fst_sort_key')
  next
    fix a b c :: canonical_result
    assume "llm_score a = None \<longrightarrow> llm_score b = None"
           "llm_score b = None \<longrightarrow> llm_score c = None"
    thus "llm_score a = None \<longrightarrow> llm_score c = None" by simp
  qed
qed

lemma sorted_results_stable:
  "filter (\<lambda>r. llm_score r = s) (insertion_sort key_lt sort_key' rs) = filter (\<lambda>r. llm_score r = s) rs"
proof (rule insertion_sort_stable)
  fix x y :: canonical_result
  assume "llm_score x = s" "llm_score y = s"
  hence "sort_key' y = sort_key' x" by (simp add: sort_key'_def)
  thus "\<not> key_lt (sort_key' y) (sort_key' x)" by (simp add: key_lt_irrefl)
qed

subsection \<open>The contract of the library sort\<close>

lemma mset_py_sorted: "sorted_contract rt \<Longrightarrow> mset (py_sorted rt f xs) = mset xs"
  by (simp add: sorted_contract_def)

lemma length_py_sorted: "sorted_contract rt \<Longrightarrow> length (py_sorted rt f xs) = length xs"
  using mset_py_sorted[of rt f xs] by (metis size_mset)

lemma py_sorted_nan_free:
  "sorted_contract rt \<Longrightarrow> nan_free_keys f xs \<Longrightarrow> py_sorted rt f xs = insertion_sort key_lt f xs"
  by (simp add: sorted_contract_def)

lemma py_sorted_ascending_run:
  "sorted_contract rt \<Longrightarrow> ascending_run f xs \<Longrightarrow> py_sorted rt f xs = xs"
  by (simp add: sorted_contract_def)

lemma nan_free_keys_sort_key':
  "list_all (\<lambda>r. llm_score r \<noteq> Some NaN) rs \<Longrightarrow> nan_free_keys sort_key' rs"
  unfolding nan_free_keys_def list_all_iff using sort_key'_good by blast

lemma insertion_sort_ascending_run:
  "successively (\<lambda>a b. \<not> lt (f b) (f a)) xs \<Longrightarrow> insertion_sort lt f xs = xs"
proof (induction xs)
  case Nil
  show ?case by (simp add: insertion_sort_def)
next
  case (Cons x xs)
  have unfold: "insertion_sort lt f (x # xs) = insort_lt lt f x (insertion_sort lt f xs)"
    by (simp add: insertion_sort_def)
  from Cons.prems have "successively (\<lambda>a b. \<not> lt (f b) (f a)) xs"
    by (cases xs) simp_all
  hence tail: "insertion_sort lt f xs = xs" by (rule Cons.IH)
  show ?case
  proof (cases xs)
    case Nil
    thus ?thesis by (simp add: insertion_sort_def)
  next
    case (Cons y ys)
    with Cons.prems have "\<not> lt (f y) (f x)" by simp
    thus ?thesis unfolding unfold tail using Cons by simp
  qed
qed

lemma insertion_sort_contract:
  assumes "py_sorted rt = insertion_sort key_lt"
  shows "sorted_contract rt"
  unfolding sorted_contract_def assms ascending_run_def
  by (simp add: mset_insertion_sort insertion_sort_ascending_run)

lemma example_runtime_simps:
  "json_dumps example_runtime v = Inr (lit ''{}'')"
  "json_loads example_runtime = example_loads"
  "py_repr example_runtime = example_repr"
  "py_sorted example_runtime = insertion_sort key_lt"
  by (simp_all add: example_runtime_def)

lemma example_runtime_contract: "sorted_contract example_runtime"
  by (rule insertion_sort_contract) (simp add: example_runtime_def)

lemma evaluate_candidates_with_llm_eq:
  "evaluate_loop rt be cl config 1 cands [] = Inr rs \<Longrightarrow>
     evaluate_candidates_with_llm rt be cands config cl = Inr (py_sorted rt sort_key' rs)"
  by (simp add: evaluate_candidates_with_llm_def)

lemma evaluate_candidates_with_llm_Inr:
  "evaluate_candidates_with_llm rt be cands config cl = Inr out \<Longrightarrow>
     \<exists>rs. evaluate_loop rt be cl config 1 cands [] = Inr rs \<and> out = py_sorted rt sort_key' rs"
  by (auto simp: evaluate_candidates_with_llm_def split: sum.splits)

lemma cardinality_when_returned:
  assumes "sorted_contract rt"
      and "evaluate_candidates_with_llm rt be cands config cl = Inr out"
  shows "length out = length cands"
proof -
  from evaluate_candidates_with_llm_Inr[OF assms(2)] obtain rs
    where loop: "evaluate_loop rt be cl config 1 cands [] = Inr rs"
      and out: "out = py_sorted rt sort_key' rs" by blast
  thus ?thesis using loop assms(1) by (simp add: length_py_sorted evaluate_loop_iff)
qed

subsection \<open>Single iterations\<close>

lemma evaluate_candidate_failure:
  "build_prompt_for_candidate rt cand config = Inr prompt \<Longrightarrow>
   call_and_parse rt be cl idx prompt = Inl e \<Longrightarrow>
     evaluate_candidate rt be cl config idx cand = Inr (failure_result cand e)"
  by (simp add: evaluate_candidate_def)

lemma call_and_parse_Inl_iff:
  "call_and_parse rt be cl idx prompt = Inl e \<longleftrightarrow>
     call_llm be cl idx prompt = Inl e \<or>
     (\<exists>raw. call_llm be cl idx prompt = Inr raw \<and> parse_llm_json_response rt raw = Inl e)"
  by (auto simp: call_and_parse_def split: sum.splits)

lemma evaluate_candidate_cong:
  assumes "\<And>p. call_llm be cl' idx p = call_llm be cl idx p"
  shows "evaluate_candidate rt be cl' config idx cand = evaluate_candidate rt be cl config idx cand"
proof -
  have "call_and_parse rt be cl' idx p = call_and_parse rt be cl idx p" for p
    by (simp add: call_and_parse_def assms)
  thus ?thesis by (simp add: evaluate_candidate_def cong: sum.case_cong)
qed

subsection \<open>Canonicalization\<close>

lemma dict_get_single: "dict_get [(k, v)] k' d = (if k' = k then v else d)"
  by (simp add: dict_get_def)

lemma lit_inject: "lit s = lit t \<longleftrightarrow> s = t"
  by (simp add: lit_def inj_map_eq_map inj_of_char)

lemma canonical_score_only:
  "canonical rt cand raw [(lit ''score'', v)] =
     (case float_or_none v of
        Inl e \<Rightarrow> Inl e
      | Inr a \<Rightarrow>
          (case float_or_none (if isinstance_int_float v then mul_10 v else PNone) of
             Inl e \<Rightarrow> Inl e
           | Inr b \<Rightarrow> Inr (score_only_result cand raw a b)))"
  by (simp add: canonical_def Let_def dict_get_single lit_inject score_only_result_def
      cong: sum.case_cong)

subsection \<open>The example run\<close>

lemma length_huge_reply: "length huge_reply = 412"
  by (simp add: huge_reply_def lit_def)

lemma huge_reply_not_lit: "length s \<noteq> 412 \<Longrightarrow> huge_reply \<noteq> lit s"
proof
  assume ne: "length s \<noteq> 412" and eq: "huge_reply = lit s"
  have "length (lit s) = length s" by (simp add: lit_def)
  hence "length huge_reply = length s" by (simp only: eq)
  hence "length s = 412" by (simp only: length_huge_reply)
  with ne show False by simp
qed

lemma huge_reply_braced: "huge_reply \<noteq> [] \<and> hd huge_reply = 123 \<and> last huge_reply = 125"
  by (simp add: huge_reply_def lit_def)

lemma example_loads_simps:
  "example_loads (lit ''{\"score\": 0.5}'') = Inr [(lit ''score'', PFloat (Finite (1 / 2)))]"
  "example_loads (lit ''{\"score\": 1}'') = Inr [(lit ''score'', PInt 1)]"
  "example_loads (lit ''{\"score\": NaN}'') = Inr [(lit ''score'', PFloat NaN)]"
  "example_loads huge_reply = Inr [(lit ''score'', PInt huge_score)]"
  by (simp_all add: example_loads_def lit_inject huge_reply_not_lit)

lemma parse_example_replies:
  "parse_llm_json_response example_runtime (lit ''{\"score\": 0.5}'') =
     Inr [(lit ''score'', PFloat (Finite (1 / 2)))]"
  "parse_llm_json_response example_runtime (lit ''{\"score\": 1}'') =
     Inr [(lit ''score'', PInt 1)]"
  "parse_llm_json_response example_runtime (lit ''{\"score\": NaN}'') =
     Inr [(lit ''score'', PFloat NaN)]"
  "parse_llm_json_response example_runtime huge_reply = Inr [(lit ''score'', PInt huge_score)]"
proof -
  have b1: "lit ''{\"score\": 0.5}'' \<noteq> []" "hd (lit ''{\"score\": 0.5}'') = 123"
           "last (lit ''{\"score\": 0.5}'') = 125"
    by (simp_all add: lit_def)
  have b2: "lit ''{\"score\": 1}'' \<noteq> []" "hd (lit ''{\"score\": 1}'') = 123"
           "last (lit ''{\"score\": 1}'') = 125"
    by (simp_all add: lit_def)
  have b3: "lit ''{\"score\": NaN}'' \<noteq> []" "hd (lit ''{\"score\": NaN}'') = 123"
           "last (lit ''{\"score\": NaN}'') = 125"
    by (simp_all add: lit_def)
  have loads: "json_loads example_runtime = example_loads"
    by (simp add: example_runtime_def)
  show "parse_llm_json_response example_runtime (lit ''{\"score\": 0.5}'') =
     Inr [(lit ''score'', PFloat (Finite (1 / 2)))]"
    by (simp add: parse_braced[OF b1] loads example_loads_simps)
  show "parse_llm_json_response example_runtime (lit ''{\"score\": 1}'') =
     Inr [(lit ''score'', PInt 1)]"
    by (simp add: parse_braced[OF b2] loads example_loads_simps)
  show "parse_llm_json_response example_runtime (lit ''{\"score\": NaN}'') =
     Inr [(lit ''score'', PFloat NaN)]"
    by (simp add: parse_braced[OF b3] loads example_loads_simps)
  show "parse_llm_json_response example_runtime huge_reply = Inr [(lit ''score'', PInt huge_score)]"
    using huge_reply_braced
    by (simp add: parse_braced loads example_loads_simps)
qed

lemma parse_example_prose:
  "parse_llm_json_response rt (lit ''  I cannot score this. '') =
     Inl (ValueError (lit ''No JSON object found in LLM response''))"
  by (simp add: parse_llm_json_response_def strip_fences_def str_strip_def isspace_def
      str_startswith_def str_endswith_def Let_def lit_def)

lemma evaluate_candidate_score_only:
  assumes "build_prompt_for_candidate rt cand config = Inr prompt"
      and "call_llm be cl idx prompt = Inr raw"
      and "parse_llm_json_response rt raw = Inr [(lit ''score'', v)]"
  shows "evaluate_candidate rt be cl config idx cand = canonical rt cand raw [(lit ''score'', v)]"
  using assms by (simp add: evaluate_candidate_def call_and_parse_def)

lemma example_prompt:
  "\<exists>prompt. build_prompt_for_candidate example_runtime cand config = Inr prompt"
  by (simp add: build_prompt_for_candidate_def Let_def example_runtime_simps)

lemma canonical_example_scores:
  "canonical rt cand raw [(lit ''score'', PFloat (Finite (1 / 2)))] =
     Inr (score_only_result cand raw (Some (Finite (1 / 2))) (Some (Finite 5)))"
  "canonical rt cand raw [(lit ''score'', PInt 1)] =
     Inr (score_only_result cand raw (Some (Finite 1)) (Some (Finite 10)))"
  "canonical rt cand raw [(lit ''score'', PFloat NaN)] =
     Inr (score_only_result cand raw (Some NaN) (Some NaN))"
  "canonical rt cand raw [(lit ''score'', PInt huge_score)] =
     Inl (OverflowError (lit ''int too large to convert to float''))"
  by (simp_all add: canonical_score_only float_or_none_def float_of_int_small
      round_double_numeral round_double_one float_of_int_def huge_score_def)

lemma example_iterations:
  "evaluate_candidate example_runtime be (Some scorer_tie) config 1 cand =
     Inr (score_only_result cand (lit ''{\"score\": 0.5}'') (Some (Finite (1 / 2))) (Some (Finite 5)))"
  "evaluate_candidate example_runtime be (Some scorer_tie) config 2 cand =
     Inr (score_only_result cand (lit ''{\"score\": 0.5}'') (Some (Finite (1 / 2))) (Some (Finite 5)))"
  "evaluate_candidate example_runtime be (Some scorer_tie) config 3 cand =
     Inr (score_only_result cand (lit ''{\"score\": 1}'') (Some (Finite 1)) (Some (Finite 10)))"
  "evaluate_candidate example_runtime be (Some scorer_tie) config 4 cand =
     Inr (score_only_result cand (lit ''{\"score\": 0.5}'') (Some (Finite (1 / 2))) (Some (Finite 5)))"
  "evaluate_candidate example_runtime be (Some scorer_failing) config 1 cand =
     Inr (score_only_result cand (lit ''{\"score\": 0.5}'') (Some (Finite (1 / 2))) (Some (Finite 5)))"
  "evaluate_candidate example_runtime be (Some scorer_failing) config 2 cand =
     Inr (failure_result cand (RuntimeError (lit ''Error calling Cloudflare AI API: timed out'')))"
  "evaluate_candidate example_runtime be (Some scorer_failing) config 3 cand =
     Inr (score_only_result cand (lit ''{\"score\": 1}'') (Some (Finite 1)) (Some (Finite 10)))"
  "evaluate_candidate example_runtime be (Some scorer_failing) config 4 cand =
     Inr (score_only_result cand (lit ''{\"score\": 0.5}'') (Some (Finite (1 / 2))) (Some (Finite 5)))"
  "evaluate_candidate example_runtime be (Some scorer_nan) config 1 cand =
     Inr (score_only_result cand (lit ''{\"score\": 0.5}'') (Some (Finite (1 / 2))) (Some (Finite 5)))"
  "evaluate_candidate example_runtime be (Some scorer_nan) config 2 cand =
     Inr (score_only_result cand (lit ''{\"score\": NaN}'') (Some NaN) (Some NaN))"
  "evaluate_candidate example_runtime be (Some scorer_nan) config 3 cand =
     Inr (score_only_result cand (lit ''{\"score\": 1}'') (Some (Finite 1)) (Some (Finite 10)))"
  "evaluate_candidate example_runtime be (Some scorer_huge) config 1 cand =
     Inl (OverflowError (lit ''int too large to convert to float''))"
  "evaluate_candidate example_runtime be (Some scorer_prose) config 1 cand =
     Inr (score_only_result cand (lit ''{\"score\": 0.5}'') (Some (Finite (1 / 2))) (Some (Finite 5)))"
  "evaluate_candidate example_runtime be (Some scorer_prose) config 2 cand =
     Inr (failure_result cand (ValueError (lit ''No JSON object found in LLM response'')))"
  "evaluate_candidate example_runtime be (Some scorer_prose) config 3 cand =
     Inr (score_only_result cand (lit ''{\"score\": 1}'') (Some (Finite 1)) (Some (Finite 10)))"
  "evaluate_candidate example_runtime be (Some scorer_prose) config 4 cand =
     Inr (score_only_result cand (lit ''{\"score\": 0.5}'') (Some (Finite (1 / 2))) (Some (Finite 5)))"
  by (simp_all add: evaluate_candidate_def build_prompt_for_candidate_def Let_def
      example_runtime_simps call_and_parse_def call_llm_def scorer_tie_def
      scorer_failing_def scorer_nan_def scorer_huge_def scorer_prose_def parse_example_replies
      parse_example_prose canonical_example_scores)

lemma evaluate_loop_step:
  "evaluate_loop rt be cl config idx (c # cs) [] =
     (case evaluate_candidate rt be cl config idx c of
        Inl e \<Rightarrow> Inl e
      | Inr r \<Rightarrow>
          (case evaluate_loop rt be cl config (idx + 1) cs [] of
             Inl e \<Rightarrow> Inl e
           | Inr rs \<Rightarrow> Inr (r # rs)))"
  unfolding evaluate_loop_Cons by (simp only: Suc_eq_plus1)

lemma example_loop_failing:
  "evaluate_loop example_runtime ImportFails (Some scorer_failing) (PDict []) 1
     [cand_a, cand_b, cand_c, cand_b] [] =
   Inr [score_only_result cand_a (lit ''{\"score\": 0.5}'') (Some (Finite (1 / 2))) (Some (Finite 5)),
        failure_result cand_b (RuntimeError (lit ''Error calling Cloudflare AI API: timed out'')),
        score_only_result cand_c (lit ''{\"score\": 1}'') (Some (Finite 1)) (Some (Finite 10)),
        score_only_result cand_b (lit ''{\"score\": 0.5}'') (Some (Finite (1 / 2))) (Some (Finite 5))]"
  by (simp add: evaluate_loop_step example_iterations del: evaluate_loop.simps(2) One_nat_def)

lemma example_loop_tie:
  "evaluate_loop example_runtime ImportFails (Some scorer_tie) (PDict []) 1
     [cand_a, cand_b, cand_c, cand_b] [] =
   Inr [score_only_result cand_a (lit ''{\"score\": 0.5}'') (Some (Finite (1 / 2))) (Some (Finite 5)),
        score_only_result cand_b (lit ''{\"score\": 0.5}'') (Some (Finite (1 / 2))) (Some (Finite 5)),
        score_only_result cand_c (lit ''{\"score\": 1}'') (Some (Finite 1)) (Some (Finite 10)),
        score_only_result cand_b (lit ''{\"score\": 0.5}'') (Some (Finite (1 / 2))) (Some (Finite 5))]"
  by (simp add: evaluate_loop_step example_iterations del: evaluate_loop.simps(2) One_nat_def)

lemma example_loop_prose:
  "evaluate_loop example_runtime ImportFails (Some scorer_prose) (PDict []) 1
     [cand_a, cand_b, cand_c, cand_b] [] =
   Inr [score_only_result cand_a (lit ''{\"score\": 0.5}'') (Some (Finite (1 / 2))) (Some (Finite 5)),
        failure_result cand_b (ValueError (lit ''No JSON object found in LLM response'')),
        score_only_result cand_c (lit ''{\"score\": 1}'') (Some (Finite 1)) (Some (Finite 10)),
        score_only_result cand_b (lit ''{\"score\": 0.5}'') (Some (Finite (1 / 2))) (Some (Finite 5))]"
  by (simp add: evaluate_loop_step example_iterations del: evaluate_loop.simps(2) One_nat_def)

lemma example_loop_nan:
  "evaluate_loop example_runtime ImportFails (Some scorer_nan) (PDict []) 1
     [cand_a, cand_b, cand_c] [] =
   Inr [score_only_result cand_a (lit ''{\"score\": 0.5}'') (Some (Finite (1 / 2))) (Some (Finite 5)),
        score_only_result cand_b (lit ''{\"score\": NaN}'') (Some NaN) (Some NaN),
        score_only_result cand_c (lit ''{\"score\": 1}'') (Some (Finite 1)) (Some (Finite 10))]"
  by (simp add: evaluate_loop_step example_iterations del: evaluate_loop.simps(2) One_nat_def)

lemma sort_key'_simps:
  "sort_key' (score_only_result cand raw (Some (Finite (1 / 2))) s10) = (False, NFloat (Finite (- (1 / 2))))"
  "sort_key' (score_only_result cand raw (Some (Finite 1)) s10) = (False, NFloat (Finite (- 1)))"
  "sort_key' (score_only_result cand raw (Some NaN) s10) = (False, NFloat NaN)"
  "sort_key' (failure_result cand e) = (True, NInt 0)"
  by (simp_all add: sort_key'_def score_only_result_def failure_result_def)

lemma key_lt_simps:
  "key_lt (False, a) (True, b)"
  "\<not> key_lt (True, a) (False, b)"
  "key_lt (False, a) (False, b) \<longleftrightarrow> float_lt (num_val a) (num_val b)"
  "key_lt (True, a) (True, b) \<longleftrightarrow> float_lt (num_val a) (num_val b)"
  by (simp_all add: key_lt_alt)

lemma example_sorted_failing:
  "py_sorted example_runtime sort_key'
     [score_only_result cand_a (lit ''{\"score\": 0.5}'') (Some (Finite (1 / 2))) (Some (Finite 5)),
      failure_result cand_b e,
      score_only_result cand_c (lit ''{\"score\": 1}'') (Some (Finite 1)) (Some (Finite 10)),
      score_only_result cand_b (lit ''{\"score\": 0.5}'') (Some (Finite (1 / 2))) (Some (Finite 5))] =
     [score_only_result cand_c (lit ''{\"score\": 1}'') (Some (Finite 1)) (Some (Finite 10)),
      score_only_result cand_a (lit ''{\"score\": 0.5}'') (Some (Finite (1 / 2))) (Some (Finite 5)),
      score_only_result cand_b (lit ''{\"score\": 0.5}'') (Some (Finite (1 / 2))) (Some (Finite 5)),
      failure_result cand_b e]"
  by (simp add: example_runtime_simps insertion_sort_def sort_key'_simps key_lt_simps)

lemma example_sorted_tie:
  "py_sorted example_runtime sort_key'
     [score_only_result cand_a (lit ''{\"score\": 0.5}'') (Some (Finite (1 / 2))) (Some (Finite 5)),
      score_only_result cand_b (lit ''{\"score\": 0.5}'') (Some (Finite (1 / 2))) (Some (Finite 5)),
      score_only_result cand_c (lit ''{\"score\": 1}'') (Some (Finite 1)) (Some (Finite 10)),
      score_only_result cand_b (lit ''{\"score\": 0.5}'') (Some (Finite (1 / 2))) (Some (Finite 5))] =
     [score_only_result cand_c (lit ''{\"score\": 1}'') (Some (Finite 1)) (Some (Finite 10)),
      score_only_result cand_a (lit ''{\"score\": 0.5}'') (Some (Finite (1 / 2))) (Some (Finite 5)),
      score_only_result cand_b (lit ''{\"score\": 0.5}'') (Some (Finite (1 / 2))) (Some (Finite 5)),
      score_only_result cand_b (lit ''{\"score\": 0.5}'') (Some (Finite (1 / 2))) (Some (Finite 5))]"
  by (simp add: example_runtime_simps insertion_sort_def sort_key'_simps key_lt_simps)

lemma example_sorted_nan:
  "py_sorted example_runtime sort_key'
     [score_only_result cand_a (lit ''{\"score\": 0.5}'') (Some (Finite (1 / 2))) (Some (Finite 5)),
      score_only_result cand_b (lit ''{\"score\": NaN}'') (Some NaN) (Some NaN),
      score_only_result cand_c (lit ''{\"score\": 1}'') (Some (Finite 1)) (Some (Finite 10))] =
     [score_only_result cand_a (lit ''{\"score\": 0.5}'') (Some (Finite (1 / 2))) (Some (Finite 5)),
      score_only_result cand_b (lit ''{\"score\": NaN}'') (Some NaN) (Some NaN),
      score_only_result cand_c (lit ''{\"score\": 1}'') (Some (Finite 1)) (Some (Finite 10))]"
  by (simp add: example_runtime_simps insertion_sort_def sort_key'_simps key_lt_simps)

lemma llm_score_simps:
  "llm_score (score_only_result cand raw s s10) = s"
  "llm_score (failure_result cand e) = None"
  by (simp_all add: score_only_result_def failure_result_def)

section \<open>The evaluation loop\<close>

text \<open>
  Claim C1 says that \<open>evaluate_candidates_with_llm\<close> returns one record for each
  candidate, whatever fails. The conversion of a parsed reply is outside the \<open>try\<close>
  statement, and \<open>float\<close> raises \<open>OverflowError\<close> on an integer beyond the range of a
  float. At a reply whose score is such an integer the exception leaves the function, which
  then returns no list at all: here for one candidate and the reply of \<open>scorer_huge\<close>.
\<close>

theorem huge_score_aborts_run:
  "evaluate_candidates_with_llm example_runtime ImportFails [cand_a] (PDict []) (Some scorer_huge) =
     Inl (OverflowError (lit ''int too large to convert to float''))"
  by (simp add: evaluate_candidates_with_llm_def evaluate_loop_step example_iterations
      del: evaluate_loop.simps(2) One_nat_def)

text \<open>
  That exception is the only one that can leave the conversion. The other way out of
  the loop is the prompt, which is built before the \<open>try\<close> statement: an exception of
  \<open>json.dumps\<close> leaves the function too. With a sort that returns what it was given, a
  run returns one record for each candidate, or raises this \<open>OverflowError\<close>, or raises
  what \<open>json.dumps\<close> raised on a candidate or on the configuration. (Standard output is
  taken to accept the progress lines, as in \<open>evaluate_candidate\<close>.)
\<close>

lemma canonical_raises_only_overflow:
  assumes "canonical rt cand raw parsed = Inl e"
  shows "e = OverflowError (lit ''int too large to convert to float'')"
proof -
  have f: "float_or_none v = Inl e' \<Longrightarrow> e' = OverflowError (lit ''int too large to convert to float'')"
    for v e'
    by (cases v) (auto simp: float_or_none_def float_of_int_def split: if_splits)
  from assms show ?thesis
    unfolding canonical_def Let_def by (auto split: sum.splits dest: f)
qed

lemma evaluate_loop_Inl:
  "evaluate_loop rt be cl config idx cands [] = Inl e \<Longrightarrow>
     \<exists>j < length cands. evaluate_candidate rt be cl config (idx + j) (cands ! j) = Inl e"
proof (induction cands arbitrary: idx)
  case Nil
  then show ?case by simp
next
  case (Cons c cs)
  show ?case
  proof (cases "evaluate_candidate rt be cl config idx c")
    case (Inl e')
    with Cons.prems have "e' = e" by (simp add: evaluate_loop_Cons del: evaluate_loop.simps(2))
    with Inl have "evaluate_candidate rt be cl config (idx + 0) ((c # cs) ! 0) = Inl e" by simp
    thus ?thesis by (intro exI[of _ 0]) simp
  next
    case (Inr r)
    with Cons.prems have "evaluate_loop rt be cl config (Suc idx) cs [] = Inl e"
      by (simp add: evaluate_loop_Cons split: sum.splits del: evaluate_loop.simps(2))
    from Cons.IH[OF this] obtain j where j: "j < length cs"
      and ej: "evaluate_candidate rt be cl config (Suc idx + j) (cs ! j) = Inl e" by blast
    hence "evaluate_candidate rt be cl config (idx + Suc j) ((c # cs) ! Suc j) = Inl e" by simp
    thus ?thesis using j by (intro exI[of _ "Suc j"]) simp
  qed
qed

lemma build_prompt_raises_only_json_dumps:
  assumes "build_prompt_for_candidate rt cand config = Inl e"
  shows "json_dumps rt (PDict (normalize_candidate cand)) = Inl e \<or> json_dumps rt config = Inl e"
  using assms by (auto simp: build_prompt_for_candidate_def Let_def split: sum.splits)

lemma evaluate_candidate_raises:
  assumes "evaluate_candidate rt be cl config idx cand = Inl e"
  shows "build_prompt_for_candidate rt cand config = Inl e \<or>
         e = OverflowError (lit ''int too large to convert to float'')"
proof (cases "build_prompt_for_candidate rt cand config")
  case (Inl e')
  with assms show ?thesis by (simp add: evaluate_candidate_def)
next
  case (Inr prompt)
  show ?thesis
  proof (cases "call_and_parse rt be cl idx prompt")
    case (Inl e')
    with assms Inr show ?thesis by (simp add: evaluate_candidate_def)
  next
    case inr: (Inr p)
    obtain raw parsed where p: "p = (raw, parsed)" by (cases p)
    from assms Inr inr p have "canonical rt cand raw parsed = Inl e"
      by (simp add: evaluate_candidate_def)
    thus ?thesis using canonical_raises_only_overflow by blast
  qed
qed

lemma run_returns_or_raises:
  assumes "sorted_contract rt"
  shows "(\<exists>out. evaluate_candidates_with_llm rt be cands config cl = Inr out \<and>
            length out = length cands) \<or>
         evaluate_candidates_with_llm rt be cands config cl =
           Inl (OverflowError (lit ''int too large to convert to float'')) \<or>
         (\<exists>cand \<in> set cands. \<exists>e. build_prompt_for_candidate rt cand config = Inl e \<and>
            evaluate_candidates_with_llm rt be cands config cl = Inl e)"
proof (cases "evaluate_candidates_with_llm rt be cands config cl")
  case (Inr out)
  thus ?thesis using cardinality_when_returned[OF assms Inr] by simp
next
  case (Inl e)
  hence "evaluate_loop rt be cl config 1 cands [] = Inl e"
    by (simp add: evaluate_candidates_with_llm_def split: sum.splits)
  from evaluate_loop_Inl[OF this] obtain j where j: "j < length cands"
    and ej: "evaluate_candidate rt be cl config (1 + j) (cands ! j) = Inl e" by blast
  from evaluate_candidate_raises[OF ej]
  show ?thesis
  proof
    assume "build_prompt_for_candidate rt (cands ! j) config = Inl e"
    moreover have "cands ! j \<in> set cands" using j by simp
    ultimately show ?thesis using Inl by blast
  next
    assume "e = OverflowError (lit ''int too large to convert to float'')"
    with Inl show ?thesis by simp
  qed
qed

text \<open>
  Claim C3. Let the scorer call for the candidate at position \<open>i\<close> raise \<open>e\<close>, or let it
  return a reply on which \<open>parse_llm_json_response\<close> raises \<open>e\<close>. Compare with any scorer
  \<open>cl'\<close> that answers every other call in the same way and whose run completes with the
  results \<open>rs'\<close> (in input order, one for each candidate). Then the run completes as
  well; its results are \<open>rs'\<close> with the record at position \<open>i\<close> replaced by the failure
  record, so every other candidate's result is unchanged; the function returns these
  results sorted; and the failure record has no \<open>llm_score\<close> and no \<open>score_10\<close>,
  \<open>passed_required\<close> false, and the one reason \<open>LLM error: \<close> followed by the text of \<open>e\<close>.
\<close>

theorem failure_isolation:
  assumes i: "i < length cands"
      and prompt: "build_prompt_for_candidate rt (cands ! i) config = Inr prompt"
      and fails: "call_llm be cl (Suc i) prompt = Inl e \<or>
                  (\<exists>raw. call_llm be cl (Suc i) prompt = Inr raw \<and>
                         parse_llm_json_response rt raw = Inl e)"
      and others: "\<forall>j p. j \<noteq> Suc i \<longrightarrow> call_llm be cl' j p = call_llm be cl j p"
      and completes: "evaluate_loop rt be cl' config 1 cands [] = Inr rs'"
  shows "length rs' = length cands \<and>
         evaluate_loop rt be cl config 1 cands [] = Inr (rs'[i := failure_result (cands ! i) e]) \<and>
         evaluate_candidates_with_llm rt be cands config cl =
           Inr (py_sorted rt sort_key' (rs'[i := failure_result (cands ! i) e])) \<and>
         (rs'[i := failure_result (cands ! i) e]) ! i = failure_result (cands ! i) e \<and>
         (\<forall>j < length cands. j \<noteq> i \<longrightarrow> (rs'[i := failure_result (cands ! i) e]) ! j = rs' ! j) \<and>
         llm_score (failure_result (cands ! i) e) = None \<and>
         score_10 (failure_result (cands ! i) e) = None \<and>
         \<not> passed_required (failure_result (cands ! i) e) \<and>
         reasons (failure_result (cands ! i) e) = [PStr (lit ''LLM error: '' @ exc_str e)]"
proof -
  from completes have len: "length rs' = length cands"
    and each: "\<And>j. j < length cands \<Longrightarrow>
                 evaluate_candidate rt be cl' config (1 + j) (cands ! j) = Inr (rs' ! j)"
    by (simp_all add: evaluate_loop_iff)
  from fails have raised: "call_and_parse rt be cl (Suc i) prompt = Inl e"
    by (simp only: call_and_parse_Inl_iff)
  have "evaluate_candidate rt be cl config (1 + j) (cands ! j) =
          Inr ((rs'[i := failure_result (cands ! i) e]) ! j)" if j: "j < length cands" for j
  proof (cases "j = i")
    case True
    have "evaluate_candidate rt be cl config (Suc i) (cands ! i) = Inr (failure_result (cands ! i) e)"
      by (rule evaluate_candidate_failure[OF prompt raised])
    thus ?thesis using True i len by simp
  next
    case False
    hence "\<And>p. call_llm be cl' (1 + j) p = call_llm be cl (1 + j) p" using others by simp
    hence "evaluate_candidate rt be cl config (1 + j) (cands ! j) =
           evaluate_candidate rt be cl' config (1 + j) (cands ! j)"
      by (rule evaluate_candidate_cong[symmetric])
    thus ?thesis using each[OF j] False by simp
  qed
  hence loop: "evaluate_loop rt be cl config 1 cands [] = Inr (rs'[i := failure_result (cands ! i) e])"
    by (simp add: evaluate_loop_iff len)
  have at_i: "(rs'[i := failure_result (cands ! i) e]) ! i = failure_result (cands ! i) e"
    using i len by simp
  have elsewhere: "\<forall>j < length cands. j \<noteq> i \<longrightarrow> (rs'[i := failure_result (cands ! i) e]) ! j = rs' ! j"
    by simp
  have fields: "llm_score (failure_result (cands ! i) e) = None \<and>
         score_10 (failure_result (cands ! i) e) = None \<and>
         \<not> passed_required (failure_result (cands ! i) e) \<and>
         reasons (failure_result (cands ! i) e) = [PStr (lit ''LLM error: '' @ exc_str e)]"
    by (simp add: failure_result_def)
  from len loop evaluate_candidates_with_llm_eq[OF loop] at_i elsewhere fields
  show ?thesis by (intro conjI) simp_all
qed

text \<open>
  Two runs over four candidates, compared with the run of \<open>scorer_tie\<close>. In the first
  the second scorer call raises; in the second it returns a sentence, on which the
  parser raises. Either way the second record is the failure record and the other
  three are those of \<open>scorer_tie\<close>.
\<close>

theorem failure_isolation_witness:
  "evaluate_loop example_runtime ImportFails (Some scorer_tie) (PDict []) 1
     [cand_a, cand_b, cand_c, cand_b] [] =
   Inr [score_only_result cand_a (lit ''{\"score\": 0.5}'') (Some (Finite (1 / 2))) (Some (Finite 5)),
        score_only_result cand_b (lit ''{\"score\": 0.5}'') (Some (Finite (1 / 2))) (Some (Finite 5)),
        score_only_result cand_c (lit ''{\"score\": 1}'') (Some (Finite 1)) (Some (Finite 10)),
        score_only_result cand_b (lit ''{\"score\": 0.5}'') (Some (Finite (1 / 2))) (Some (Finite 5))] \<and>
   scorer_failing 2 [] = Inl (RuntimeError (lit ''Error calling Cloudflare AI API: timed out'')) \<and>
   evaluate_loop example_runtime ImportFails (Some scorer_failing) (PDict []) 1
     [cand_a, cand_b, cand_c, cand_b] [] =
   Inr [score_only_result cand_a (lit ''{\"score\": 0.5}'') (Some (Finite (1 / 2))) (Some (Finite 5)),
        failure_result cand_b (RuntimeError (lit ''Error calling Cloudflare AI API: timed out'')),
        score_only_result cand_c (lit ''{\"score\": 1}'') (Some (Finite 1)) (Some (Finite 10)),
        score_only_result cand_b (lit ''{\"score\": 0.5}'') (Some (Finite (1 / 2))) (Some (Finite 5))] \<and>
   evaluate_candidates_with_llm example_runtime ImportFails [cand_a, cand_b, cand_c, cand_b]
     (PDict []) (Some scorer_failing) =
   Inr [score_only_result cand_c (lit ''{\"score\": 1}'') (Some (Finite 1)) (Some (Finite 10)),
        score_only_result cand_a (lit ''{\"score\": 0.5}'') (Some (Finite (1 / 2))) (Some (Finite 5)),
        score_only_result cand_b (lit ''{\"score\": 0.5}'') (Some (Finite (1 / 2))) (Some (Finite 5)),
        failure_result cand_b (RuntimeError (lit ''Error calling Cloudflare AI API: timed out''))] \<and>
   reasons (failure_result cand_b (RuntimeError (lit ''Error calling Cloudflare AI API: timed out''))) =
     [PStr (lit ''LLM error: '' @ lit ''Error calling Cloudflare AI API: timed out'')] \<and>
   scorer_prose 2 [] = Inr (lit ''  I cannot score this. '') \<and>
   parse_llm_json_response example_runtime (lit ''  I cannot score this. '') =
     Inl (ValueError (lit ''No JSON object found in LLM response'')) \<and>
   evaluate_loop example_runtime ImportFails (Some scorer_prose) (PDict []) 1
     [cand_a, cand_b, cand_c, cand_b] [] =
   Inr [score_only_result cand_a (lit ''{\"score\": 0.5}'') (Some (Finite (1 / 2))) (Some (Finite 5)),
        failure_result cand_b (ValueError (lit ''No JSON object found in LLM response'')),
        score_only_result cand_c (lit ''{\"score\": 1}'') (Some (Finite 1)) (Some (Finite 10)),
        score_only_result cand_b (lit ''{\"score\": 0.5}'') (Some (Finite (1 / 2))) (Some (Finite 5))] \<and>
   evaluate_candidates_with_llm example_runtime ImportFails [cand_a, cand_b, cand_c, cand_b]
     (PDict []) (Some scorer_prose) =
   Inr [score_only_result cand_c (lit ''{\"score\": 1}'') (Some (Finite 1)) (Some (Finite 10)),
        score_only_result cand_a (lit ''{\"score\": 0.5}'') (Some (Finite (1 / 2))) (Some (Finite 5)),
        score_only_result cand_b (lit ''{\"score\": 0.5}'') (Some (Finite (1 / 2))) (Some (Finite 5)),
        failure_result cand_b (ValueError (lit ''No JSON object found in LLM response''))] \<and>
   reasons (failure_result cand_b (ValueError (lit ''No JSON object found in LLM response''))) =
     [PStr (lit ''LLM error: '' @ lit ''No JSON object found in LLM response'')]"
proof -
  have i: "Suc 0 < length [cand_a, cand_b, cand_c, cand_b]" by simp
  obtain prompt where prompt:
    "build_prompt_for_candidate example_runtime ([cand_a, cand_b, cand_c, cand_b] ! Suc 0) (PDict []) =
       Inr prompt"
    using example_prompt by blast
  have raises: "call_llm ImportFails (Some scorer_failing) (Suc (Suc 0)) prompt =
        Inl (RuntimeError (lit ''Error calling Cloudflare AI API: timed out'')) \<or>
      (\<exists>raw. call_llm ImportFails (Some scorer_failing) (Suc (Suc 0)) prompt = Inr raw \<and>
         parse_llm_json_response example_runtime raw =
           Inl (RuntimeError (lit ''Error calling Cloudflare AI API: timed out'')))"
    by (simp add: call_llm_def scorer_failing_def)
  have others: "\<forall>j p. j \<noteq> Suc (Suc 0) \<longrightarrow>
      call_llm ImportFails (Some scorer_tie) j p = call_llm ImportFails (Some scorer_failing) j p"
    by (simp add: call_llm_def scorer_failing_def)
  have unparsed: "call_llm ImportFails (Some scorer_prose) (Suc (Suc 0)) prompt =
        Inl (ValueError (lit ''No JSON object found in LLM response'')) \<or>
      (\<exists>raw. call_llm ImportFails (Some scorer_prose) (Suc (Suc 0)) prompt = Inr raw \<and>
         parse_llm_json_response example_runtime raw =
           Inl (ValueError (lit ''No JSON object found in LLM response'')))"
    by (simp add: call_llm_def scorer_prose_def parse_example_prose)
  have others': "\<forall>j p. j \<noteq> Suc (Suc 0) \<longrightarrow>
      call_llm ImportFails (Some scorer_tie) j p = call_llm ImportFails (Some scorer_prose) j p"
    by (simp add: call_llm_def scorer_prose_def)
  have calls: "scorer_failing 2 [] = Inl (RuntimeError (lit ''Error calling Cloudflare AI API: timed out''))"
    "scorer_prose 2 [] = Inr (lit ''  I cannot score this. '')"
    by (simp_all add: scorer_failing_def scorer_prose_def)
  note first = failure_isolation[OF i prompt raises others example_loop_tie]
  note second = failure_isolation[OF i prompt unparsed others' example_loop_tie]
  have loop1: "evaluate_loop example_runtime ImportFails (Some scorer_failing) (PDict []) 1
       [cand_a, cand_b, cand_c, cand_b] [] =
     Inr [score_only_result cand_a (lit ''{\"score\": 0.5}'') (Some (Finite (1 / 2))) (Some (Finite 5)),
          failure_result cand_b (RuntimeError (lit ''Error calling Cloudflare AI API: timed out'')),
          score_only_result cand_c (lit ''{\"score\": 1}'') (Some (Finite 1)) (Some (Finite 10)),
          score_only_result cand_b (lit ''{\"score\": 0.5}'') (Some (Finite (1 / 2))) (Some (Finite 5))]"
    using first by simp
  have run1: "evaluate_candidates_with_llm example_runtime ImportFails [cand_a, cand_b, cand_c, cand_b]
       (PDict []) (Some scorer_failing) =
     Inr [score_only_result cand_c (lit ''{\"score\": 1}'') (Some (Finite 1)) (Some (Finite 10)),
          score_only_result cand_a (lit ''{\"score\": 0.5}'') (Some (Finite (1 / 2))) (Some (Finite 5)),
          score_only_result cand_b (lit ''{\"score\": 0.5}'') (Some (Finite (1 / 2))) (Some (Finite 5)),
          failure_result cand_b (RuntimeError (lit ''Error calling Cloudflare AI API: timed out''))]"
    using first by (simp add: example_sorted_failing)
  have reasons1: "reasons (failure_result cand_b (RuntimeError (lit ''Error calling Cloudflare AI API: timed out''))) =
       [PStr (lit ''LLM error: '' @ lit ''Error calling Cloudflare AI API: timed out'')]"
    using first by simp
  have loop2: "evaluate_loop example_runtime ImportFails (Some scorer_prose) (PDict []) 1
       [cand_a, cand_b, cand_c, cand_b] [] =
     Inr [score_only_result cand_a (lit ''{\"score\": 0.5}'') (Some (Finite (1 / 2))) (Some (Finite 5)),
          failure_result cand_b (ValueError (lit ''No JSON object found in LLM response'')),
          score_only_result cand_c (lit ''{\"score\": 1}'') (Some (Finite 1)) (Some (Finite 10)),
          score_only_result cand_b (lit ''{\"score\": 0.5}'') (Some (Finite (1 / 2))) (Some (Finite 5))]"
    using second by simp
  have run2: "evaluate_candidates_with_llm example_runtime ImportFails [cand_a, cand_b, cand_c, cand_b]
       (PDict []) (Some scorer_prose) =
     Inr [score_only_result cand_c (lit ''{\"score\": 1}'') (Some (Finite 1)) (Some (Finite 10)),
          score_only_result cand_a (lit ''{\"score\": 0.5}'') (Some (Finite (1 / 2))) (Some (Finite 5)),
          score_only_result cand_b (lit ''{\"score\": 0.5}'') (Some (Finite (1 / 2))) (Some (Finite 5)),
          failure_result cand_b (ValueError (lit ''No JSON object found in LLM response''))]"
    using second by (simp add: example_sorted_failing)
  have reasons2: "reasons (failure_result cand_b (ValueError (lit ''No JSON object found in LLM response''))) =
       [PStr (lit ''LLM error: '' @ lit ''No JSON object found in LLM response'')]"
    using second by simp
  show ?thesis
    by (intro conjI example_loop_tie calls loop1 run1 reasons1 parse_example_prose loop2 run2 reasons2)
qed

text \<open>
  Claim C10. Let the function return. Then the loop has made one record for each
  candidate, in input order; the record at position \<open>j\<close> is the one that the iteration
  for the candidate at position \<open>j\<close> made, whether that iteration ended in the failure
  record or in a canonical result, and it carries that candidate's \<open>id\<close> and \<open>name\<close>
  (\<open>None\<close> where the candidate has none); the returned list holds these records, each
  as often as the loop made it; hence the pairs of \<open>id\<close> and \<open>name\<close> of the output are
  those of the input, as multisets. The sort is taken to return what it was given.
\<close>

theorem identities_preserved:
  assumes contract: "sorted_contract rt"
      and run: "evaluate_candidates_with_llm rt be cands config cl = Inr out"
  shows "\<exists>rs. evaluate_loop rt be cl config 1 cands [] = Inr rs \<and>
              length rs = length cands \<and>
              (\<forall>j < length cands.
                 evaluate_candidate rt be cl config (Suc j) (cands ! j) = Inr (rs ! j) \<and>
                 id' (rs ! j) = dict_get (cands ! j) (lit ''id'') PNone \<and>
                 name (rs ! j) = dict_get (cands ! j) (lit ''name'') PNone) \<and>
              out = py_sorted rt sort_key' rs \<and>
              mset out = mset rs \<and>
              mset (map result_identity out) = mset (map candidate_identity cands)"
proof -
  from evaluate_candidates_with_llm_Inr[OF run] obtain rs
    where loop: "evaluate_loop rt be cl config 1 cands [] = Inr rs"
      and out: "out = py_sorted rt sort_key' rs" by blast
  from loop have len: "length rs = length cands"
    and each: "\<And>j. j < length cands \<Longrightarrow>
                 evaluate_candidate rt be cl config (Suc j) (cands ! j) = Inr (rs ! j)"
    by (simp_all add: evaluate_loop_iff)
  have ident: "id' (rs ! j) = dict_get (cands ! j) (lit ''id'') PNone \<and>
               name (rs ! j) = dict_get (cands ! j) (lit ''name'') PNone"
    if j: "j < length cands" for j
    using evaluate_candidate_identity[OF each[OF j]]
    by (simp add: result_identity_def candidate_identity_def)
  have perm: "mset out = mset rs" using contract out by (simp add: mset_py_sorted)
  have "mset (map result_identity out) = image_mset result_identity (mset out)" by simp
  also have "\<dots> = image_mset result_identity (mset rs)" by (simp only: perm)
  also have "\<dots> = mset (map result_identity rs)" by simp
  also have "\<dots> = mset (map candidate_identity cands)"
    by (simp only: evaluate_loop_identities[OF loop])
  finally have pairs: "mset (map result_identity out) = mset (map candidate_identity cands)" .
  from loop len each ident out perm pairs show ?thesis by (intro exI[of _ rs]) simp
qed

text \<open>
  The run of \<open>scorer_failing\<close> over four candidates, of which the second and the fourth
  are the same and the third has no name. The second record is a failure record and
  carries the identity of the second candidate; the sort moves it to the end.
\<close>

theorem identities_preserved_witness:
  "evaluate_candidates_with_llm example_runtime ImportFails [cand_a, cand_b, cand_c, cand_b]
     (PDict []) (Some scorer_failing) =
     Inr [score_only_result cand_c (lit ''{\"score\": 1}'') (Some (Finite 1)) (Some (Finite 10)),
          score_only_result cand_a (lit ''{\"score\": 0.5}'') (Some (Finite (1 / 2))) (Some (Finite 5)),
          score_only_result cand_b (lit ''{\"score\": 0.5}'') (Some (Finite (1 / 2))) (Some (Finite 5)),
          failure_result cand_b (RuntimeError (lit ''Error calling Cloudflare AI API: timed out''))] \<and>
   evaluate_loop example_runtime ImportFails (Some scorer_failing) (PDict []) 1
     [cand_a, cand_b, cand_c, cand_b] [] =
     Inr [score_only_result cand_a (lit ''{\"score\": 0.5}'') (Some (Finite (1 / 2))) (Some (Finite 5)),
          failure_result cand_b (RuntimeError (lit ''Error calling Cloudflare AI API: timed out'')),
          score_only_result cand_c (lit ''{\"score\": 1}'') (Some (Finite 1)) (Some (Finite 10)),
          score_only_result cand_b (lit ''{\"score\": 0.5}'') (Some (Finite (1 / 2))) (Some (Finite 5))] \<and>
   map result_identity
     [score_only_result cand_a (lit ''{\"score\": 0.5}'') (Some (Finite (1 / 2))) (Some (Finite 5)),
      failure_result cand_b (RuntimeError (lit ''Error calling Cloudflare AI API: timed out'')),
      score_only_result cand_c (lit ''{\"score\": 1}'') (Some (Finite 1)) (Some (Finite 10)),
      score_only_result cand_b (lit ''{\"score\": 0.5}'') (Some (Finite (1 / 2))) (Some (Finite 5))] =
   [(PStr (lit ''./resumes/a.pdf''), PStr (lit ''a.pdf'')),
    (PStr (lit ''./resumes/b.pdf''), PStr (lit ''b.pdf'')),
    (PStr (lit ''./resumes/c.pdf''), PNone),
    (PStr (lit ''./resumes/b.pdf''), PStr (lit ''b.pdf''))] \<and>
   map candidate_identity [cand_a, cand_b, cand_c, cand_b] =
   [(PStr (lit ''./resumes/a.pdf''), PStr (lit ''a.pdf'')),
    (PStr (lit ''./resumes/b.pdf''), PStr (lit ''b.pdf'')),
    (PStr (lit ''./resumes/c.pdf''), PNone),
    (PStr (lit ''./resumes/b.pdf''), PStr (lit ''b.pdf''))] \<and>
   mset (map result_identity
     [score_only_result cand_c (lit ''{\"score\": 1}'') (Some (Finite 1)) (Some (Finite 10)),
      score_only_result cand_a (lit ''{\"score\": 0.5}'') (Some (Finite (1 / 2))) (Some (Finite 5)),
      score_only_result cand_b (lit ''{\"score\": 0.5}'') (Some (Finite (1 / 2))) (Some (Finite 5)),
      failure_result cand_b (RuntimeError (lit ''Error calling Cloudflare AI API: timed out''))]) =
   mset (map candidate_identity [cand_a, cand_b, cand_c, cand_b])"
proof -
  have run: "evaluate_candidates_with_llm example_runtime ImportFails [cand_a, cand_b, cand_c, cand_b]
     (PDict []) (Some scorer_failing) =
     Inr [score_only_result cand_c (lit ''{\"score\": 1}'') (Some (Finite 1)) (Some (Finite 10)),
          score_only_result cand_a (lit ''{\"score\": 0.5}'') (Some (Finite (1 / 2))) (Some (Finite 5)),
          score_only_result cand_b (lit ''{\"score\": 0.5}'') (Some (Finite (1 / 2))) (Some (Finite 5)),
          failure_result cand_b (RuntimeError (lit ''Error calling Cloudflare AI API: timed out''))]"
    by (simp add: evaluate_candidates_with_llm_eq[OF example_loop_failing] example_sorted_failing)
  have cands: "map candidate_identity [cand_a, cand_b, cand_c, cand_b] =
     [(PStr (lit ''./resumes/a.pdf''), PStr (lit ''a.pdf'')),
      (PStr (lit ''./resumes/b.pdf''), PStr (lit ''b.pdf'')),
      (PStr (lit ''./resumes/c.pdf''), PNone),
      (PStr (lit ''./resumes/b.pdf''), PStr (lit ''b.pdf''))]"
    by (simp add: candidate_identity_def cand_a_def cand_b_def cand_c_def dict_get_def lit_inject)
  from identities_preserved[OF example_runtime_contract run] obtain rs
    where loop: "evaluate_loop example_runtime ImportFails (Some scorer_failing) (PDict []) 1
                   [cand_a, cand_b, cand_c, cand_b] [] = Inr rs"
      and pos: "\<forall>j < length [cand_a, cand_b, cand_c, cand_b].
                  id' (rs ! j) = dict_get ([cand_a, cand_b, cand_c, cand_b] ! j) (lit ''id'') PNone \<and>
                  name (rs ! j) = dict_get ([cand_a, cand_b, cand_c, cand_b] ! j) (lit ''name'') PNone"
      and len: "length rs = length [cand_a, cand_b, cand_c, cand_b]"
      and pairs: "mset (map result_identity
          [score_only_result cand_c (lit ''{\"score\": 1}'') (Some (Finite 1)) (Some (Finite 10)),
           score_only_result cand_a (lit ''{\"score\": 0.5}'') (Some (Finite (1 / 2))) (Some (Finite 5)),
           score_only_result cand_b (lit ''{\"score\": 0.5}'') (Some (Finite (1 / 2))) (Some (Finite 5)),
           failure_result cand_b (RuntimeError (lit ''Error calling Cloudflare AI API: timed out''))]) =
        mset (map candidate_identity [cand_a, cand_b, cand_c, cand_b])"
    by blast
  from loop have rs: "rs = [score_only_result cand_a (lit ''{\"score\": 0.5}'') (Some (Finite (1 / 2))) (Some (Finite 5)),
          failure_result cand_b (RuntimeError (lit ''Error calling Cloudflare AI API: timed out'')),
          score_only_result cand_c (lit ''{\"score\": 1}'') (Some (Finite 1)) (Some (Finite 10)),
          score_only_result cand_b (lit ''{\"score\": 0.5}'') (Some (Finite (1 / 2))) (Some (Finite 5))]"
    unfolding example_loop_failing by simp
  have "map result_identity rs = map candidate_identity [cand_a, cand_b, cand_c, cand_b]"
  proof (rule nth_equalityI)
    show "length (map result_identity rs) = length (map candidate_identity [cand_a, cand_b, cand_c, cand_b])"
      using len by simp
  next
    fix j assume "j < length (map result_identity rs)"
    hence jr: "j < length rs" by simp
    hence j: "j < length [cand_a, cand_b, cand_c, cand_b]" by (simp only: len)
    from pos j
    have pj: "id' (rs ! j) = dict_get ([cand_a, cand_b, cand_c, cand_b] ! j) (lit ''id'') PNone \<and>
              name (rs ! j) = dict_get ([cand_a, cand_b, cand_c, cand_b] ! j) (lit ''name'') PNone"
      by blast
    have "map result_identity rs ! j = result_identity (rs ! j)"
      using jr by (rule nth_map)
    also have "\<dots> = candidate_identity ([cand_a, cand_b, cand_c, cand_b] ! j)"
      by (simp only: result_identity_def candidate_identity_def pj)
    also have "\<dots> = map candidate_identity [cand_a, cand_b, cand_c, cand_b] ! j"
      using j by (rule nth_map[symmetric])
    finally show "map result_identity rs ! j = map candidate_identity [cand_a, cand_b, cand_c, cand_b] ! j" .
  qed
  hence ids: "map result_identity
     [score_only_result cand_a (lit ''{\"score\": 0.5}'') (Some (Finite (1 / 2))) (Some (Finite 5)),
      failure_result cand_b (RuntimeError (lit ''Error calling Cloudflare AI API: timed out'')),
      score_only_result cand_c (lit ''{\"score\": 1}'') (Some (Finite 1)) (Some (Finite 10)),
      score_only_result cand_b (lit ''{\"score\": 0.5}'') (Some (Finite (1 / 2))) (Some (Finite 5))] =
     [(PStr (lit ''./resumes/a.pdf''), PStr (lit ''a.pdf'')),
      (PStr (lit ''./resumes/b.pdf''), PStr (lit ''b.pdf'')),
      (PStr (lit ''./resumes/c.pdf''), PNone),
      (PStr (lit ''./resumes/b.pdf''), PStr (lit ''b.pdf''))]"
    unfolding rs cands .
  show ?thesis by (intro conjI run example_loop_failing ids cands pairs)
qed

section \<open>The order of the returned list\<close>

text \<open>
  Claim C2 says that the returned list is sorted by descending \<open>llm_score\<close>, and the
  comment above \<open>sort_key\<close> says the same. The decoder accepts \<open>NaN\<close> as a number, the
  conversion keeps it as a score, and a NaN compares false with everything. Let the
  loop make three records with the scores 0.5, NaN and 1, in this order. No key is less
  than the key before it, so the list is one run and the sort returns it as it is:
  the function returns the record with score 1 after the record with score 0.5, and
  the returned scores are not descending.
\<close>

theorem nan_score_breaks_descending:
  assumes contract: "sorted_contract rt"
      and loop: "evaluate_loop rt be cl config 1 cands [] = Inr rs"
      and scores: "map llm_score rs = [Some (Finite (1 / 2)), Some NaN, Some (Finite 1)]"
  shows "evaluate_candidates_with_llm rt be cands config cl = Inr rs \<and> \<not> descending_scores rs"
proof -
  from scores obtain a b c where rs: "rs = [a, b, c]"
    and a: "llm_score a = Some (Finite (1 / 2))"
    and b: "llm_score b = Some NaN"
    and c: "llm_score c = Some (Finite 1)"
    by (auto simp: map_eq_Cons_conv)
  have keys: "sort_key' a = (False, NFloat (Finite (- (1 / 2))))"
    "sort_key' b = (False, NFloat NaN)"
    "sort_key' c = (False, NFloat (Finite (- 1)))"
    using a b c by (simp_all add: sort_key'_def)
  have "ascending_run sort_key' rs"
    by (simp add: ascending_run_def rs keys key_lt_simps)
  hence "py_sorted rt sort_key' rs = rs" by (rule py_sorted_ascending_run[OF contract])
  hence returned: "evaluate_candidates_with_llm rt be cands config cl = Inr rs"
    using evaluate_candidates_with_llm_eq[OF loop] by simp
  have "\<not> descending_scores rs"
    by (simp add: descending_scores_def rs a b c float_ge_def float_eq_def)
  with returned show ?thesis by simp
qed

theorem nan_score_breaks_descending_witness:
  "evaluate_loop example_runtime ImportFails (Some scorer_nan) (PDict []) 1
     [cand_a, cand_b, cand_c] [] =
     Inr [score_only_result cand_a (lit ''{\"score\": 0.5}'') (Some (Finite (1 / 2))) (Some (Finite 5)),
          score_only_result cand_b (lit ''{\"score\": NaN}'') (Some NaN) (Some NaN),
          score_only_result cand_c (lit ''{\"score\": 1}'') (Some (Finite 1)) (Some (Finite 10))] \<and>
   evaluate_candidates_with_llm example_runtime ImportFails [cand_a, cand_b, cand_c] (PDict [])
     (Some scorer_nan) =
     Inr [score_only_result cand_a (lit ''{\"score\": 0.5}'') (Some (Finite (1 / 2))) (Some (Finite 5)),
          score_only_result cand_b (lit ''{\"score\": NaN}'') (Some NaN) (Some NaN),
          score_only_result cand_c (lit ''{\"score\": 1}'') (Some (Finite 1)) (Some (Finite 10))] \<and>
   \<not> descending_scores
     [score_only_result cand_a (lit ''{\"score\": 0.5}'') (Some (Finite (1 / 2))) (Some (Finite 5)),
      score_only_result cand_b (lit ''{\"score\": NaN}'') (Some NaN) (Some NaN),
      score_only_result cand_c (lit ''{\"score\": 1}'') (Some (Finite 1)) (Some (Finite 10))]"
proof -
  have scores: "map llm_score
     [score_only_result cand_a (lit ''{\"score\": 0.5}'') (Some (Finite (1 / 2))) (Some (Finite 5)),
      score_only_result cand_b (lit ''{\"score\": NaN}'') (Some NaN) (Some NaN),
      score_only_result cand_c (lit ''{\"score\": 1}'') (Some (Finite 1)) (Some (Finite 10))] =
     [Some (Finite (1 / 2)), Some NaN, Some (Finite 1)]"
    by (simp add: llm_score_simps)
  note broken = nan_score_breaks_descending[OF example_runtime_contract example_loop_nan scores]
  show ?thesis by (intro conjI example_loop_nan conjunct1[OF broken] conjunct2[OF broken])
qed

text \<open>
  Where no score is a NaN the order is as the comment says. Let \<open>rs\<close> be the results of
  the loop, in input order, none with a NaN score, and let the sort meet its contract.
  Then the function returns \<open>rs\<close> sorted by a stable sort: the scores are descending,
  every result without a score comes after every result with one, and the results with
  one and the same \<open>llm_score\<close> (and those without a score) keep their input order.
\<close>

lemma ranking_order_without_nan:
  assumes contract: "sorted_contract rt"
      and loop: "evaluate_loop rt be cl config 1 cands [] = Inr rs"
      and no_nan: "list_all (\<lambda>r. llm_score r \<noteq> Some NaN) rs"
  shows "evaluate_candidates_with_llm rt be cands config cl = Inr (insertion_sort key_lt sort_key' rs) \<and>
         descending_scores (insertion_sort key_lt sort_key' rs) \<and>
         unscored_last (insertion_sort key_lt sort_key' rs) \<and>
         (\<forall>s. filter (\<lambda>r. llm_score r = s) (insertion_sort key_lt sort_key' rs) =
              filter (\<lambda>r. llm_score r = s) rs)"
proof -
  have "py_sorted rt sort_key' rs = insertion_sort key_lt sort_key' rs"
    by (rule py_sorted_nan_free[OF contract nan_free_keys_sort_key'[OF no_nan]])
  hence "evaluate_candidates_with_llm rt be cands config cl = Inr (insertion_sort key_lt sort_key' rs)"
    using evaluate_candidates_with_llm_eq[OF loop] by simp
  moreover have "descending_scores (insertion_sort key_lt sort_key' rs)"
    using no_nan by (simp add: sorted_results_descending list_all_iff)
  ultimately show ?thesis
    by (simp add: sorted_results_unscored_last sorted_results_stable)
qed

section \<open>The parser\<close>

text \<open>
  Claim C5. When the reply, after whitespace trimming and fence stripping, contains no
  opening brace, or no closing brace, or has its last closing brace before its first
  opening brace, \<open>parse_llm_json_response\<close> raises
  \<open>ValueError("No JSON object found in LLM response")\<close>, whatever the decoder would do:
  no result is made up.
\<close>

theorem parse_no_json_object:
  assumes "123 \<notin> set (strip_fences raw) \<or> 125 \<notin> set (strip_fences raw) \<or>
           str_rfind (strip_fences raw) 125 < str_find (strip_fences raw) 123"
  shows "parse_llm_json_response rt raw =
           Inl (ValueError (lit ''No JSON object found in LLM response''))"
  using assms
  by (auto simp: parse_llm_json_response_def Let_def str_find_minus1_iff str_rfind_minus1_iff)

lemma strip_fences_prose:
  "strip_fences (lit ''  I cannot score this. '') = lit ''I cannot score this.''"
  by (simp add: strip_fences_def str_strip_def lit_def isspace_def str_startswith_def
      str_endswith_def)

theorem parse_no_json_object_witness:
  "123 \<notin> set (strip_fences (lit ''  I cannot score this. '')) \<and>
   parse_llm_json_response example_runtime (lit ''  I cannot score this. '') =
     Inl (ValueError (lit ''No JSON object found in LLM response''))"
  using parse_no_json_object[of "lit ''  I cannot score this. ''" example_runtime]
  by (simp add: strip_fences_prose) (simp add: lit_def)

text \<open>
  Claim C4, at the reply \<open>{"score": 0.5\<close>, a well-formed object that lacks its one
  closing brace. The reply has no closing brace at all, so the search for the last one
  fails and the parser raises before the repair is tried, whatever the decoder is.
\<close>

theorem parse_missing_brace_not_repaired:
  "parse_llm_json_response rt (lit ''{\"score\": 0.5'') =
     Inl (ValueError (lit ''No JSON object found in LLM response''))"
  by (simp add: parse_llm_json_response_def strip_fences_def str_strip_def isspace_def
      str_startswith_def str_endswith_def str_rfind_def Let_def lit_def)

text \<open>
  When the reply that lacks its last brace still has an inner one, the snippet ends at
  that inner brace. If it decodes after the repair, the text behind the inner brace is
  lost: here the score.
\<close>

lemma parse_repair_cuts_at_inner_brace:
  assumes "json_loads rt (lit ''{\"breakdown\": {\"general\": 0.7}'') = Inl (JSONDecodeError msg doc pos)"
      and "json_loads rt (lit ''{\"breakdown\": {\"general\": 0.7}}'') = Inr parsed"
  shows "parse_llm_json_response rt (lit ''{\"breakdown\": {\"general\": 0.7}, \"score\": 0.5'') =
           Inr parsed"
proof -
  have snippet: "slice (strip_fences (lit ''{\"breakdown\": {\"general\": 0.7}, \"score\": 0.5''))
           (str_find (strip_fences (lit ''{\"breakdown\": {\"general\": 0.7}, \"score\": 0.5'')) 123)
           (str_rfind (strip_fences (lit ''{\"breakdown\": {\"general\": 0.7}, \"score\": 0.5'')) 125 + 1) =
         lit ''{\"breakdown\": {\"general\": 0.7}''"
    and found: "str_find (strip_fences (lit ''{\"breakdown\": {\"general\": 0.7}, \"score\": 0.5'')) 123 = 0"
               "str_rfind (strip_fences (lit ''{\"breakdown\": {\"general\": 0.7}, \"score\": 0.5'')) 125 = 29"
    by (simp_all add: strip_fences_def str_strip_def isspace_def str_startswith_def
        str_endswith_def str_rfind_def slice_def Let_def lit_def)
  have repaired: "lit ''{\"breakdown\": {\"general\": 0.7}'' @ lit ''}'' =
                  lit ''{\"breakdown\": {\"general\": 0.7}}''"
    by (simp add: lit_def)
  show ?thesis
    unfolding parse_llm_json_response_def Let_def snippet
    by (simp add: found assms repaired)
qed

section \<open>Canonicalization\<close>

text \<open>
  Claim C6 says that a value under \<open>reasons\<close> that is not a list is wrapped into a list of
  one element and never replaced by the empty list. The source reads the value with
  \<open>parsed.get("reasons") or []\<close>, so a falsy value is replaced by the empty list before the
  wrapping: for the reply \<open>{"reasons": 0}\<close> the canonical result has no reasons.
\<close>

theorem falsy_reasons_dropped:
  "map_sum id reasons
     (canonical example_runtime cand_a (lit ''{\"reasons\": 0}'') [(lit ''reasons'', PInt 0)]) =
   Inr []"
  by (simp add: canonical_def Let_def dict_get_single lit_inject float_or_none_def)

text \<open>
  Claim C6 as amended. In the canonical result, \<open>reasons\<close> is the value itself when that
  is a list; a value that is not a list is wrapped, as its string, into a list of one
  element when it is truthy, and gives the empty list when it is falsy (\<open>None\<close>, \<open>False\<close>,
  zero, the empty string, the empty dictionary) or absent.
\<close>

theorem canonical_reasons:
  assumes "canonical rt cand raw parsed = Inr r"
  shows "reasons r =
           (case dict_get parsed (lit ''reasons'') PNone of
              PList xs \<Rightarrow> xs
            | v \<Rightarrow> if truthy v then [PStr (py_str rt v)] else [])"
proof -
  obtain a b where r: "r = \<lparr> id' = dict_get cand (lit ''id'') PNone,
          name = dict_get cand (lit ''name'') PNone,
          llm_score = a, score_10 = b,
          breakdown = (case dict_get parsed (lit ''breakdown'') (PDict []) of PDict d \<Rightarrow> d | _ \<Rightarrow> []),
          passed_required = truthy (dict_get parsed (lit ''passed_required'') (PBool False)),
          reasons = (case (if truthy (dict_get parsed (lit ''reasons'') PNone)
                           then dict_get parsed (lit ''reasons'') PNone else PList []) of
                       PList xs \<Rightarrow> xs | v \<Rightarrow> [PStr (py_str rt v)]),
          raw_llm_output = Some raw,
          explanation = dict_get parsed (lit ''explanation'') PNone \<rparr>"
    using assms unfolding canonical_def Let_def by (auto split: sum.splits)
  show ?thesis
    unfolding r by (cases "dict_get parsed (lit ''reasons'') PNone") auto
qed


theorem canonical_reasons_witness:
  "canonical example_runtime cand_a (lit ''{\"reasons\": \"strong Python\"}'')
     [(lit ''reasons'', PStr (lit ''strong Python''))] =
     Inr ((score_only_result cand_a (lit ''{\"reasons\": \"strong Python\"}'') None None)
            \<lparr>reasons := [PStr (lit ''strong Python'')]\<rparr>) \<and>
   reasons ((score_only_result cand_a (lit ''{\"reasons\": \"strong Python\"}'') None None)
            \<lparr>reasons := [PStr (lit ''strong Python'')]\<rparr>) =
     [PStr (lit ''strong Python'')]"
proof -
  have c: "canonical example_runtime cand_a (lit ''{\"reasons\": \"strong Python\"}'')
     [(lit ''reasons'', PStr (lit ''strong Python''))] =
     Inr ((score_only_result cand_a (lit ''{\"reasons\": \"strong Python\"}'') None None)
            \<lparr>reasons := [PStr (lit ''strong Python'')]\<rparr>)"
    by (simp add: canonical_def Let_def dict_get_single lit_inject float_or_none_def
        score_only_result_def py_str_def) (simp add: lit_def)
  from canonical_reasons[OF c] c show ?thesis by simp
qed

text \<open>
  Claim C7 says that a score that is not a number, a boolean included, gives no
  \<open>llm_score\<close> and no \<open>score_10\<close>. The source tests \<open>isinstance(score, (int, float))\<close>, and
  in Python \<open>True\<close> is an instance of \<open>int\<close>: for the reply \<open>{"score": true}\<close> the canonical
  result has \<open>llm_score\<close> 1.0 and \<open>score_10\<close> 10.0.
\<close>

theorem canonical_bool_score:
  "canonical rt cand raw [(lit ''score'', PBool True)] =
     Inr (score_only_result cand raw (Some (Finite 1)) (Some (Finite 10)))"
  by (simp add: canonical_score_only float_or_none_def float_of_int_small)


text \<open>
  For every other kind of value the claim holds: a float is kept and multiplied by ten,
  an integer is converted, and \<open>None\<close>, a string, a list or a dictionary gives no score.
\<close>

lemma canonical_scores:
  assumes "canonical rt cand raw parsed = Inr r"
  shows "case dict_get parsed (lit ''score'') PNone of
           PFloat f \<Rightarrow> llm_score r = Some f \<and> score_10 r = Some (float_mul f (Finite 10))
         | PInt n \<Rightarrow> llm_score r = Some (round_double (of_int n)) \<and>
                     score_10 r = Some (round_double (of_int (n * 10)))
         | PBool b \<Rightarrow> llm_score r = Some (Finite (if b then 1 else 0)) \<and>
                      score_10 r = Some (Finite (if b then 10 else 0))
         | _ \<Rightarrow> llm_score r = None \<and> score_10 r = None"
proof (cases "dict_get parsed (lit ''score'') PNone")
  case (PBool b)
  with assms show ?thesis
    unfolding canonical_def Let_def
    by (auto simp: float_or_none_def float_of_int_small round_double_zero)
next
  case (PInt n)
  with assms show ?thesis
    unfolding canonical_def Let_def
    by (auto simp: float_or_none_def float_of_int_def split: if_splits)
next
  case (PFloat f)
  with assms show ?thesis
    unfolding canonical_def Let_def by (auto simp: float_or_none_def)
next
  case PNone
  with assms show ?thesis
    unfolding canonical_def Let_def by (auto simp: float_or_none_def)
next
  case (PStr s)
  with assms show ?thesis
    unfolding canonical_def Let_def by (auto simp: float_or_none_def)
next
  case (PList xs)
  with assms show ?thesis
    unfolding canonical_def Let_def by (auto simp: float_or_none_def)
next
  case (PDict d)
  with assms show ?thesis
    unfolding canonical_def Let_def by (auto simp: float_or_none_def)
qed
section \<open>The backend configuration\<close>

text \<open>
  Claim C8 says that the startup check detects the absence of any of the three
  configuration values, so that no scorer call of a run that passed it fails for a missing
  value. The check tests the token and the account only. With an empty model name it
  passes, and then every scorer call raises the error of the missing model name.
\<close>

theorem startup_check_misses_model:
  "is_ollama_installed constants_without_model \<and>
   call_llm (ScoreCandidate (score_candidate constants_without_model request_ok None)) None 1 [] =
     Inl (RuntimeError
       (lit ''Cloudflare model name is empty. Set CLOUDFLARE_MODEL or pass model explicitly.''))"
  by (simp add: is_ollama_installed_def constants_without_model_def call_llm_def
      score_candidate_def get_cloudflare_config_def Let_def lit_def)

lemma get_cloudflare_config_checked:
  assumes "is_ollama_installed c"
  shows "get_cloudflare_config c model =
           (if str_truthy (if str_truthy model then model else CLOUDFLARE_MODEL c)
            then Inr (CLOUDFLARE_ACCOUNT_ID c, CLOUDFLARE_API_TOKEN c,
                      if str_truthy model then model else CLOUDFLARE_MODEL c)
            else Inl (RuntimeError
                   (lit ''Cloudflare model name is empty. Set CLOUDFLARE_MODEL or pass model explicitly.'')))"
  using assms by (simp add: is_ollama_installed_def get_cloudflare_config_def Let_def)

lemma score_candidate_checked:
  assumes "is_ollama_installed c"
  shows "score_candidate c request model idx prompt =
           (if str_truthy (if str_truthy model then model else CLOUDFLARE_MODEL c)
            then request idx (CLOUDFLARE_ACCOUNT_ID c) (CLOUDFLARE_API_TOKEN c)
                   (if str_truthy model then model else CLOUDFLARE_MODEL c) (full_prompt prompt)
            else Inl (RuntimeError
                   (lit ''Cloudflare model name is empty. Set CLOUDFLARE_MODEL or pass model explicitly.'')))"
  by (simp add: score_candidate_def get_cloudflare_config_checked[OF assms])

lemma evaluate_loop_map:
  assumes "\<And>j. j < length cands \<Longrightarrow>
             evaluate_candidate rt be cl config (idx + j) (cands ! j) = Inr (f (cands ! j))"
  shows "evaluate_loop rt be cl config idx cands [] = Inr (map f cands)"
  using assms by (simp add: evaluate_loop_iff)

text \<open>
  Claim C8 as amended. Let the startup check pass. Then the account and the token are
  set, and resolving the configuration raises neither the missing-account nor the
  missing-token error. A scorer call hands the account, the token, the model name and
  the full prompt to the HTTP request when the model name is not empty, and raises the
  error of the missing model name when it is: on every call, whatever the prompt. With
  an empty model name the loop records that error for each candidate whose prompt can
  be built, and a run over such candidates completes with nothing but failure records.
\<close>

theorem startup_check_covers_credentials:
  assumes passed: "is_ollama_installed c"
  shows "str_truthy (CLOUDFLARE_ACCOUNT_ID c) \<and> str_truthy (CLOUDFLARE_API_TOKEN c) \<and>
         (\<forall>model.
            get_cloudflare_config c model \<noteq>
              Inl (RuntimeError (lit ''Missing CLOUDFLARE_ACCOUNT_ID environment variable.'')) \<and>
            get_cloudflare_config c model \<noteq>
              Inl (RuntimeError (lit ''Missing CLOUDFLARE_API_TOKEN environment variable.''))) \<and>
         (\<forall>model idx prompt.
            score_candidate c request model idx prompt =
              (if str_truthy (if str_truthy model then model else CLOUDFLARE_MODEL c)
               then request idx (CLOUDFLARE_ACCOUNT_ID c) (CLOUDFLARE_API_TOKEN c)
                      (if str_truthy model then model else CLOUDFLARE_MODEL c) (full_prompt prompt)
               else Inl (RuntimeError
                      (lit ''Cloudflare model name is empty. Set CLOUDFLARE_MODEL or pass model explicitly.'')))) \<and>
         (\<forall>idx prompt.
            call_llm (ScoreCandidate (score_candidate c request None)) None idx prompt =
              (if str_truthy (CLOUDFLARE_MODEL c)
               then request idx (CLOUDFLARE_ACCOUNT_ID c) (CLOUDFLARE_API_TOKEN c)
                      (CLOUDFLARE_MODEL c) (full_prompt prompt)
               else Inl (RuntimeError
                      (lit ''Cloudflare model name is empty. Set CLOUDFLARE_MODEL or pass model explicitly.'')))) \<and>
         (\<not> str_truthy (CLOUDFLARE_MODEL c) \<longrightarrow>
            (\<forall>rt config idx cand prompt.
               build_prompt_for_candidate rt cand config = Inr prompt \<longrightarrow>
               evaluate_candidate rt (ScoreCandidate (score_candidate c request None)) None config idx cand =
                 Inr (failure_result cand (RuntimeError
                   (lit ''Cloudflare model name is empty. Set CLOUDFLARE_MODEL or pass model explicitly.'')))) \<and>
            (\<forall>rt config cands.
               (\<forall>cand \<in> set cands. \<exists>prompt. build_prompt_for_candidate rt cand config = Inr prompt) \<longrightarrow>
               evaluate_loop rt (ScoreCandidate (score_candidate c request None)) None config 1 cands [] =
                 Inr (map (\<lambda>cand. failure_result cand (RuntimeError
                   (lit ''Cloudflare model name is empty. Set CLOUDFLARE_MODEL or pass model explicitly.'')))
                        cands)))"
proof -
  have set: "str_truthy (CLOUDFLARE_ACCOUNT_ID c)" "str_truthy (CLOUDFLARE_API_TOKEN c)"
    using passed by (simp_all add: is_ollama_installed_def)
  have resolved: "get_cloudflare_config c model \<noteq>
          Inl (RuntimeError (lit ''Missing CLOUDFLARE_ACCOUNT_ID environment variable.'')) \<and>
        get_cloudflare_config c model \<noteq>
          Inl (RuntimeError (lit ''Missing CLOUDFLARE_API_TOKEN environment variable.''))" for model
    unfolding get_cloudflare_config_checked[OF passed] by (simp add: lit_inject)
  have call: "call_llm (ScoreCandidate (score_candidate c request None)) None idx prompt =
        (if str_truthy (CLOUDFLARE_MODEL c)
         then request idx (CLOUDFLARE_ACCOUNT_ID c) (CLOUDFLARE_API_TOKEN c)
                (CLOUDFLARE_MODEL c) (full_prompt prompt)
         else Inl (RuntimeError
                (lit ''Cloudflare model name is empty. Set CLOUDFLARE_MODEL or pass model explicitly.'')))"
    for idx prompt
    by (simp add: call_llm_def score_candidate_checked[OF passed])
  have recorded: "evaluate_candidate rt (ScoreCandidate (score_candidate c request None)) None config idx cand =
        Inr (failure_result cand (RuntimeError
          (lit ''Cloudflare model name is empty. Set CLOUDFLARE_MODEL or pass model explicitly.'')))"
    if empty: "\<not> str_truthy (CLOUDFLARE_MODEL c)"
      and prompt: "build_prompt_for_candidate rt cand config = Inr prompt"
    for rt config idx cand prompt
  proof (rule evaluate_candidate_failure[OF prompt])
    show "call_and_parse rt (ScoreCandidate (score_candidate c request None)) None idx prompt =
            Inl (RuntimeError
              (lit ''Cloudflare model name is empty. Set CLOUDFLARE_MODEL or pass model explicitly.''))"
      using empty by (simp add: call_and_parse_def call)
  qed
  have run: "evaluate_loop rt (ScoreCandidate (score_candidate c request None)) None config 1 cands [] =
        Inr (map (\<lambda>cand. failure_result cand (RuntimeError
          (lit ''Cloudflare model name is empty. Set CLOUDFLARE_MODEL or pass model explicitly.'')))
               cands)"
    if empty: "\<not> str_truthy (CLOUDFLARE_MODEL c)"
      and prompts: "\<forall>cand \<in> set cands. \<exists>prompt. build_prompt_for_candidate rt cand config = Inr prompt"
    for rt config cands
  proof (rule evaluate_loop_map)
    fix j assume "j < length cands"
    hence "cands ! j \<in> set cands" by simp
    with prompts obtain prompt where "build_prompt_for_candidate rt (cands ! j) config = Inr prompt"
      by blast
    thus "evaluate_candidate rt (ScoreCandidate (score_candidate c request None)) None config (1 + j)
            (cands ! j) =
          Inr (failure_result (cands ! j) (RuntimeError
            (lit ''Cloudflare model name is empty. Set CLOUDFLARE_MODEL or pass model explicitly.'')))"
      by (rule recorded[OF empty])
  qed
  show ?thesis
    apply (intro conjI allI impI)
           apply (rule set(1))
          apply (rule set(2))
         apply (simp add: resolved)
        apply (simp add: resolved)
       apply (rule score_candidate_checked[OF passed])
      apply (rule call)
     apply (rule recorded; assumption)
    apply (rule run; assumption)
    done
qed

text \<open>
  Two configurations that pass the check. With the model name set, a scorer call is
  the HTTP request. With the model name empty, the calls for both candidates of a run
  raise, and the run returns two failure records.
\<close>

theorem startup_check_covers_credentials_witness:
  "is_ollama_installed constants_complete \<and>
   call_llm (ScoreCandidate (score_candidate constants_complete request_ok None)) None 1 [] =
     request_ok 1 (Some (lit ''account'')) (Some (lit ''token''))
       (Some (lit ''@cf/meta/llama-3-8b-instruct'')) (full_prompt []) \<and>
   is_ollama_installed constants_without_model \<and>
   \<not> str_truthy (CLOUDFLARE_MODEL constants_without_model) \<and>
   call_llm (ScoreCandidate (score_candidate constants_without_model request_ok None)) None 2 [] =
     Inl (RuntimeError
       (lit ''Cloudflare model name is empty. Set CLOUDFLARE_MODEL or pass model explicitly.'')) \<and>
   evaluate_loop example_runtime
     (ScoreCandidate (score_candidate constants_without_model request_ok None)) None (PDict []) 1
     [cand_a, cand_b] [] =
     Inr [failure_result cand_a (RuntimeError
            (lit ''Cloudflare model name is empty. Set CLOUDFLARE_MODEL or pass model explicitly.'')),
          failure_result cand_b (RuntimeError
            (lit ''Cloudflare model name is empty. Set CLOUDFLARE_MODEL or pass model explicitly.''))]"
proof -
  have ok: "is_ollama_installed constants_complete"
    by (simp add: is_ollama_installed_def constants_complete_def lit_def)
  have ok': "is_ollama_installed constants_without_model"
    by (simp add: is_ollama_installed_def constants_without_model_def lit_def)
  have empty: "\<not> str_truthy (CLOUDFLARE_MODEL constants_without_model)"
    by (simp add: constants_without_model_def)
  have prompts: "\<forall>cand \<in> set [cand_a, cand_b].
      \<exists>prompt. build_prompt_for_candidate example_runtime cand (PDict []) = Inr prompt"
    using example_prompt by blast
  note complete = startup_check_covers_credentials[OF ok, of request_ok]
  note without = startup_check_covers_credentials[OF ok', of request_ok]
  have call: "call_llm (ScoreCandidate (score_candidate constants_complete request_ok None)) None 1 [] =
     request_ok 1 (Some (lit ''account'')) (Some (lit ''token''))
       (Some (lit ''@cf/meta/llama-3-8b-instruct'')) (full_prompt [])"
    using complete by (simp add: constants_complete_def lit_def)
  have call': "call_llm (ScoreCandidate (score_candidate constants_without_model request_ok None)) None 2 [] =
     Inl (RuntimeError
       (lit ''Cloudflare model name is empty. Set CLOUDFLARE_MODEL or pass model explicitly.''))"
    using without empty by simp
  from without empty prompts
  have "evaluate_loop example_runtime
     (ScoreCandidate (score_candidate constants_without_model request_ok None)) None (PDict []) 1
     [cand_a, cand_b] [] =
     Inr (map (\<lambda>cand. failure_result cand (RuntimeError
            (lit ''Cloudflare model name is empty. Set CLOUDFLARE_MODEL or pass model explicitly.'')))
          [cand_a, cand_b])"
    by blast
  hence run: "evaluate_loop example_runtime
     (ScoreCandidate (score_candidate constants_without_model request_ok None)) None (PDict []) 1
     [cand_a, cand_b] [] =
     Inr [failure_result cand_a (RuntimeError
            (lit ''Cloudflare model name is empty. Set CLOUDFLARE_MODEL or pass model explicitly.'')),
          failure_result cand_b (RuntimeError
            (lit ''Cloudflare model name is empty. Set CLOUDFLARE_MODEL or pass model explicitly.''))]"
    by (simp only: list.map)
  show ?thesis by (intro conjI ok call ok' empty call' run)
qed

section \<open>The PDF loader\<close>

text \<open>
  Claim C9. For a \<open>bytes\<close> input whose first five bytes are \<open>%PDF-\<close>,
  \<open>load_pdf_binary\<close> returns that input unchanged; for every other \<open>bytes\<close> input it
  raises the \<open>ValueError\<close> of the header check and returns nothing.
\<close>

theorem load_pdf_binary_bytes:
  "load_pdf_binary (Bytes b) =
     (if take 5 b = ''%PDF-'' then Inr b
      else Inl (ValueError
             (lit ''Provided data does not appear to be a PDF (missing %PDF- header)'')))"
  by (simp add: load_pdf_binary_def is_pdf_bytes_def)

text \<open>
  A string goes through \<open>encode('latin-1')\<close> first. Where a character has no byte the
  error names it and its position; where a run of such characters begins it names the
  positions of the run.
\<close>

lemma hex_padded_numeral:
  "hex_padded (numeral w) n = hex_padded (pred_numeral w) (n div 16) @ [hex_digit (n mod 16)]"
  by (metis hex_padded.simps(2) numeral_eq_Suc)

lemma encode_latin_1_not_encodable:
  "encode_latin_1 [97, 256, 98] =
     Inl (UnicodeEncodeError
       ([39] @ lit ''latin-1'' @ [39] @ lit '' codec can'' @ [39] @ lit ''t encode character '' @
        [39, 92] @ lit ''u0100'' @ [39] @ lit '' in position 1: ordinal not in range(256)''))"
  by (simp add: encode_latin_1_def Let_def hex_padded_numeral hex_digit_def
      str_nat.simps[of "Suc 0"] lit_def)

lemma encode_latin_1_run_not_encodable:
  "encode_latin_1 [120, 65535, 65536] =
     Inl (UnicodeEncodeError
       ([39] @ lit ''latin-1'' @ [39] @ lit '' codec can'' @ [39] @
        lit ''t encode characters in position 1-2: ordinal not in range(256)''))"
  by (simp add: encode_latin_1_def Let_def str_nat.simps[of "Suc 0"]
      str_nat.simps[of "Suc (Suc 0)"] lit_def)

lemma load_pdf_binary_str:
  "load_pdf_binary (Str s) =
     (case encode_latin_1 s of
        Inl e \<Rightarrow> Inl e
      | Inr data \<Rightarrow>
          if take 5 data = ''%PDF-'' then Inr data
          else Inl (ValueError
                 (lit ''Provided data does not appear to be a PDF (missing %PDF- header)'')))"
  by (simp add: load_pdf_binary_def is_pdf_bytes_def split: sum.splits)

end
